theory Spec2Isabelle
  imports Main "HOL-Library.Word"
begin

unbundle bit_operations_syntax

section \<open>Machine types and status codes\<close>

type_synonym UINT64 = "64 word"
type_synonym UINT32 = "32 word"
type_synonym UCHAR = "8 word"

text \<open>
  A byte buffer handed over by pointer is the memory behind that pointer: a function
  from the byte offset to the byte stored there. It does not end after the bytes the
  caller asked for, as the memory behind a C pointer does not.
\<close>

type_synonym buffer = "UINT64 \<Rightarrow> UCHAR"

text \<open>The values written to the \<open>KernelStatus\<close> and \<open>Result\<close> fields of a request.\<close>

datatype DEBUGGER_STATUS =
    DEBUGGER_OPERATION_WAS_SUCCESSFUL
  | DEBUGGER_ERROR_READING_MEMORY_INVALID_PARAMETER
  | DEBUGGER_ERROR_INVALID_PHYSICAL_ADDRESS
  | DEBUGGER_ERROR_INVALID_ADDRESS
  | DEBUGGER_ERROR_MEMORY_TYPE_INVALID
  | DEBUGGER_ERROR_EDIT_MEMORY_STATUS_INVALID_PARAMETER
  | DEBUGGER_ERROR_EDIT_MEMORY_STATUS_INVALID_ADDRESS_BASED_ON_CURRENT_PROCESS
  | DEBUGGER_ERROR_EDIT_MEMORY_STATUS_INVALID_ADDRESS_BASED_ON_OTHER_PROCESS
  | DEBUGGER_STATUS_NOT_SET

datatype NTSTATUS =
    STATUS_SUCCESS
  | STATUS_INVALID_PARAMETER
  | STATUS_UNSUCCESSFUL
  | STATUS_INSUFFICIENT_RESOURCES
  | STATUS_OTHER UINT32

section \<open>Reading memory\<close>

text \<open>
  The memory type of a read request. The last constructor stands for any value of the
  field that is neither of the two named constants.
\<close>

datatype DEBUGGER_READ_MEMORY_TYPE =
    DEBUGGER_READ_PHYSICAL_ADDRESS
  | DEBUGGER_READ_VIRTUAL_ADDRESS
  | DEBUGGER_READ_MEMORY_TYPE_OTHER

text \<open>
  The address mode reported back for disassembly. The last constructor stands for
  whatever the caller left in the field.
\<close>

datatype DEBUGGER_READ_ADDRESS_MODE =
    DEBUGGER_READ_ADDRESS_MODE_32_BIT
  | DEBUGGER_READ_ADDRESS_MODE_64_BIT
  | DEBUGGER_READ_ADDRESS_MODE_NOT_SET

text \<open>The fields of \<open>DEBUGGER_READ_MEMORY\<close> that the read commands use.\<close>

record DEBUGGER_READ_MEMORY =
  rm_Pid :: UINT32
  rm_Address :: UINT64
  rm_Size :: UINT32
  rm_GetAddressMode :: bool
  rm_AddressMode :: DEBUGGER_READ_ADDRESS_MODE
  rm_MemoryType :: DEBUGGER_READ_MEMORY_TYPE
  rm_KernelStatus :: DEBUGGER_STATUS

text \<open>An entry of the breakpoint list \<open>g_BreakpointsListHead\<close>.\<close>

record DEBUGGEE_BP_DESCRIPTOR =
  bp_Address :: UINT64
  bp_PreviousByte :: UCHAR

text \<open>
  The two address checks of the memory mapper. Their code is not part of the command
  file, so they are parameters; the read and the edit commands both call them.
\<close>

record memory_checks =
  CheckAddressPhysical :: "UINT64 \<Rightarrow> bool"
  CheckAccessValidityAndSafety :: "UINT64 \<Rightarrow> UINT32 \<Rightarrow> bool"

text \<open>
  The other routines the read commands call and the global list they walk, parameters
  as well:
  \<^item> \<open>MemoryManagerReadProcessMemoryNormal\<close> takes the process id, the address, the
    memory type, the buffer, the size and the current return size, and gives back
    whether it succeeded, the buffer and the return size as it left them;
  \<^item> the two WOW64 queries answer \<open>None\<close> when they fail and otherwise whether the
    process is a 32-bit one;
  \<^item> the two safe readers take the address, the buffer and the size and give the
    buffer as they left it;
  \<^item> \<open>g_BreakpointsListHead\<close> is the breakpoint list in \<open>Flink\<close> order.
\<close>

record read_environment = memory_checks +
  MemoryManagerReadProcessMemoryNormal ::
    "UINT32 \<Rightarrow> UINT64 \<Rightarrow> DEBUGGER_READ_MEMORY_TYPE \<Rightarrow> buffer \<Rightarrow> UINT32 \<Rightarrow> UINT64
      \<Rightarrow> bool \<times> buffer \<times> UINT64"
  UserAccessIsWow64Process :: "UINT32 \<Rightarrow> bool option"
  UserAccessIsWow64ProcessByEprocess_PsGetCurrentProcess :: "bool option"
  MemoryMapperReadMemorySafeByPhysicalAddress :: "UINT64 \<Rightarrow> buffer \<Rightarrow> UINT32 \<Rightarrow> buffer"
  MemoryMapperReadMemorySafeOnTargetProcess :: "UINT64 \<Rightarrow> buffer \<Rightarrow> UINT32 \<Rightarrow> buffer"
  g_BreakpointsListHead :: "DEBUGGEE_BP_DESCRIPTOR list"

subsection \<open>\<open>DebuggerCommandReadMemory\<close>\<close>

text \<open>
  The result is the returned \<open>BOOLEAN\<close>, the request as the call left it, the user
  buffer and \<open>*ReturnSize\<close>.
\<close>

definition DebuggerCommandReadMemory ::
  "read_environment \<Rightarrow> DEBUGGER_READ_MEMORY \<Rightarrow> buffer \<Rightarrow> UINT64
    \<Rightarrow> bool \<times> DEBUGGER_READ_MEMORY \<times> buffer \<times> UINT64" where
  "DebuggerCommandReadMemory env ReadMemRequest UserBuffer ReturnSize =
    (let Pid = rm_Pid ReadMemRequest;
         Size = rm_Size ReadMemRequest;
         Address = rm_Address ReadMemRequest;
         MemType = rm_MemoryType ReadMemRequest
     in
     if Size \<noteq> 0 \<and> Address \<noteq> 0 then
       (case MemoryManagerReadProcessMemoryNormal env Pid Address MemType UserBuffer Size ReturnSize of
          (True, UserBuffer', ReturnSize') \<Rightarrow>
            (let Request1 =
               (if rm_MemoryType ReadMemRequest = DEBUGGER_READ_VIRTUAL_ADDRESS
                   \<and> rm_GetAddressMode ReadMemRequest then
                  (if rm_Address ReadMemRequest \<ge> 0xFFFF800000000000
                      \<and> rm_Address ReadMemRequest \<le> 0xFFFFFFFFFFFFFFFF then
                     ReadMemRequest\<lparr>rm_AddressMode := DEBUGGER_READ_ADDRESS_MODE_64_BIT\<rparr>
                   else
                     (case UserAccessIsWow64Process env (rm_Pid ReadMemRequest) of
                        Some Is32BitProcess \<Rightarrow>
                          (if Is32BitProcess then
                             ReadMemRequest\<lparr>rm_AddressMode := DEBUGGER_READ_ADDRESS_MODE_32_BIT\<rparr>
                           else
                             ReadMemRequest\<lparr>rm_AddressMode := DEBUGGER_READ_ADDRESS_MODE_64_BIT\<rparr>)
                      | None \<Rightarrow>
                          ReadMemRequest\<lparr>rm_AddressMode := DEBUGGER_READ_ADDRESS_MODE_64_BIT\<rparr>))
                else ReadMemRequest)
             in (True, Request1\<lparr>rm_KernelStatus := DEBUGGER_OPERATION_WAS_SUCCESSFUL\<rparr>,
                 UserBuffer', ReturnSize'))
        | (False, UserBuffer', ReturnSize') \<Rightarrow>
            (False,
             ReadMemRequest\<lparr>rm_KernelStatus := DEBUGGER_ERROR_READING_MEMORY_INVALID_PARAMETER\<rparr>,
             UserBuffer', ReturnSize'))
     else
       (False,
        ReadMemRequest\<lparr>rm_KernelStatus := DEBUGGER_ERROR_READING_MEMORY_INVALID_PARAMETER\<rparr>,
        UserBuffer, ReturnSize))"

subsection \<open>\<open>DebuggerCommandReadMemoryVmxRoot\<close>\<close>

text \<open>
  The walk over the breakpoint list: the body of the \<open>while\<close> loop, once for each
  descriptor, in list order. \<open>Address + Size\<close> is a 64-bit sum and
  \<open>OffsetInUserBuffer\<close> a 64-bit difference.
\<close>

fun ReadMemoryVmxRoot_BreakpointLoop ::
  "UINT64 \<Rightarrow> UINT32 \<Rightarrow> DEBUGGEE_BP_DESCRIPTOR list \<Rightarrow> buffer \<Rightarrow> buffer" where
  "ReadMemoryVmxRoot_BreakpointLoop Address Size [] UserBuffer = UserBuffer"
| "ReadMemoryVmxRoot_BreakpointLoop Address Size (CurrentBreakpointDesc # TempList) UserBuffer =
     (if bp_Address CurrentBreakpointDesc \<ge> Address
         \<and> bp_Address CurrentBreakpointDesc \<le> Address + ucast Size then
        (let OffsetInUserBuffer = bp_Address CurrentBreakpointDesc - Address in
         if UserBuffer OffsetInUserBuffer = 0xcc then
           ReadMemoryVmxRoot_BreakpointLoop Address Size TempList
             (UserBuffer(OffsetInUserBuffer := bp_PreviousByte CurrentBreakpointDesc))
         else ReadMemoryVmxRoot_BreakpointLoop Address Size TempList UserBuffer)
      else ReadMemoryVmxRoot_BreakpointLoop Address Size TempList UserBuffer)"

text \<open>
  The result is the returned \<open>BOOLEAN\<close>, the request as the call left it, the user
  buffer and \<open>*ReturnSize\<close> (a \<open>UINT32\<close> here).
\<close>

definition DebuggerCommandReadMemoryVmxRoot ::
  "read_environment \<Rightarrow> DEBUGGER_READ_MEMORY \<Rightarrow> buffer \<Rightarrow> UINT32
    \<Rightarrow> bool \<times> DEBUGGER_READ_MEMORY \<times> buffer \<times> UINT32" where
  "DebuggerCommandReadMemoryVmxRoot env ReadMemRequest UserBuffer ReturnSize =
    (let Pid = rm_Pid ReadMemRequest;
         Size = rm_Size ReadMemRequest;
         Address = rm_Address ReadMemRequest;
         MemType = rm_MemoryType ReadMemRequest;
         Finish = (\<lambda>UserBuffer'.
           (let Request1 =
              (if rm_MemoryType ReadMemRequest = DEBUGGER_READ_VIRTUAL_ADDRESS
                  \<and> rm_GetAddressMode ReadMemRequest then
                 (if rm_Address ReadMemRequest \<ge> 0xFFFF800000000000
                     \<and> rm_Address ReadMemRequest \<le> 0xFFFFFFFFFFFFFFFF then
                    ReadMemRequest\<lparr>rm_AddressMode := DEBUGGER_READ_ADDRESS_MODE_64_BIT\<rparr>
                  else
                    (case UserAccessIsWow64ProcessByEprocess_PsGetCurrentProcess env of
                       Some Is32BitProcess \<Rightarrow>
                         (if Is32BitProcess then
                            ReadMemRequest\<lparr>rm_AddressMode := DEBUGGER_READ_ADDRESS_MODE_32_BIT\<rparr>
                          else
                            ReadMemRequest\<lparr>rm_AddressMode := DEBUGGER_READ_ADDRESS_MODE_64_BIT\<rparr>)
                     | None \<Rightarrow>
                         ReadMemRequest\<lparr>rm_AddressMode := DEBUGGER_READ_ADDRESS_MODE_64_BIT\<rparr>))
               else ReadMemRequest)
            in (True, Request1\<lparr>rm_KernelStatus := DEBUGGER_OPERATION_WAS_SUCCESSFUL\<rparr>,
                UserBuffer', Size)))
     in
     if MemType = DEBUGGER_READ_PHYSICAL_ADDRESS then
       (if \<not> CheckAddressPhysical env Address then
          (False, ReadMemRequest\<lparr>rm_KernelStatus := DEBUGGER_ERROR_INVALID_PHYSICAL_ADDRESS\<rparr>,
           UserBuffer, ReturnSize)
        else Finish (MemoryMapperReadMemorySafeByPhysicalAddress env Address UserBuffer Size))
     else if MemType = DEBUGGER_READ_VIRTUAL_ADDRESS then
       (if \<not> CheckAccessValidityAndSafety env Address Size then
          (False, ReadMemRequest\<lparr>rm_KernelStatus := DEBUGGER_ERROR_INVALID_ADDRESS\<rparr>,
           UserBuffer, ReturnSize)
        else Finish (ReadMemoryVmxRoot_BreakpointLoop Address Size (g_BreakpointsListHead env)
                       (MemoryMapperReadMemorySafeOnTargetProcess env Address UserBuffer Size)))
     else
       (False, ReadMemRequest\<lparr>rm_KernelStatus := DEBUGGER_ERROR_MEMORY_TYPE_INVALID\<rparr>,
        UserBuffer, ReturnSize))"

subsection \<open>The breakpoint masking, as the specification words it\<close>

text \<open>
  A descriptor overlaps a read of \<open>Size\<close> bytes at \<open>Address\<close> when its address lies
  within \<open>[Address, Address + Size]\<close>, both ends included.
\<close>

definition bp_in_read_range :: "UINT64 \<Rightarrow> UINT32 \<Rightarrow> DEBUGGEE_BP_DESCRIPTOR \<Rightarrow> bool" where
  "bp_in_read_range Address Size d \<longleftrightarrow>
     Address \<le> bp_Address d \<and> bp_Address d \<le> Address + ucast Size"

text \<open>
  Un-shadowing one descriptor: if it overlaps and the byte at its offset is the trap
  opcode, the byte becomes the descriptor's previous byte; otherwise the buffer stays.
\<close>

definition unshadow_descriptor ::
  "UINT64 \<Rightarrow> UINT32 \<Rightarrow> buffer \<Rightarrow> DEBUGGEE_BP_DESCRIPTOR \<Rightarrow> buffer" where
  "unshadow_descriptor Address Size b d =
     (if bp_in_read_range Address Size d \<and> b (bp_Address d - Address) = 0xcc
      then b(bp_Address d - Address := bp_PreviousByte d) else b)"

section \<open>Reading and writing MSRs\<close>

text \<open>
  The action of an MSR request. The last constructor stands for any value of the field
  that is neither of the two named constants.
\<close>

datatype DEBUGGER_MSR_ACTION_TYPE =
    DEBUGGER_MSR_READ
  | DEBUGGER_MSR_WRITE
  | DEBUGGER_MSR_ACTION_TYPE_OTHER

record DEBUGGER_READ_AND_WRITE_ON_MSR =
  msr_Msr :: UINT32
  msr_CoreNumber :: UINT32
  msr_ActionType :: DEBUGGER_MSR_ACTION_TYPE
  msr_Value :: UINT64

text \<open>The \<open>MsrState\<close> slot of one core in \<open>g_DbgState\<close>.\<close>

record PROCESSOR_DEBUGGING_MSR_READ_OR_WRITE =
  Msr :: UINT32
  Value :: UINT64

text \<open>
  What the MSR command can change: the per-core slots \<open>g_DbgState[i].MsrState\<close>, indexed
  by the core number, and the model-specific registers of every core.
\<close>

record msr_machine =
  g_DbgState :: "nat \<Rightarrow> PROCESSOR_DEBUGGING_MSR_READ_OR_WRITE"
  HardwareMsr :: "nat \<Rightarrow> UINT32 \<Rightarrow> UINT64"

datatype DPC_ROUTINE = DpcRoutinePerformWriteMsr | DpcRoutinePerformReadMsr

text \<open>
  The kernel routines the MSR command calls and the constant it compares the core
  number with. Their code is not part of the command file, so each is a parameter:
  the two broadcasts change the machine, and the single-core dispatch answers a status
  and the machine as it left it.
\<close>

record msr_environment =
  KeQueryActiveProcessorCount :: UINT32
  DEBUGGER_READ_AND_WRITE_ON_MSR_APPLY_ALL_CORES :: UINT32
  KeGenericCallDpc_DpcRoutineWriteMsrToAllCores :: "msr_machine \<Rightarrow> msr_machine"
  KeGenericCallDpc_DpcRoutineReadMsrToAllCores :: "msr_machine \<Rightarrow> msr_machine"
  DpcRoutineRunTaskOnSingleCore :: "UINT32 \<Rightarrow> DPC_ROUTINE \<Rightarrow> msr_machine \<Rightarrow> NTSTATUS \<times> msr_machine"

text \<open>
  \<open>DebuggerReadOrWriteMsr\<close>. The user buffer is an array of \<open>UINT64\<close>, a function from
  the index. The result is the returned status, the user buffer, \<open>*ReturnSize\<close> and the
  machine. The \<open>for\<close> loops over the cores are folds over \<open>0, \<dots>, ProcessorsCount - 1\<close>.
\<close>

definition DebuggerReadOrWriteMsr ::
  "msr_environment \<Rightarrow> DEBUGGER_READ_AND_WRITE_ON_MSR \<Rightarrow> (nat \<Rightarrow> UINT64) \<Rightarrow> UINT64
    \<Rightarrow> msr_machine \<Rightarrow> NTSTATUS \<times> (nat \<Rightarrow> UINT64) \<times> UINT64 \<times> msr_machine" where
  "DebuggerReadOrWriteMsr env ReadOrWriteMsrRequest UserBuffer ReturnSize m =
    (let ProcessorsCount = KeQueryActiveProcessorCount env;
         CoreNumber = msr_CoreNumber ReadOrWriteMsrRequest
     in
     if msr_ActionType ReadOrWriteMsrRequest = DEBUGGER_MSR_WRITE then
       (if CoreNumber = DEBUGGER_READ_AND_WRITE_ON_MSR_APPLY_ALL_CORES env then
          (let m1 = m\<lparr>g_DbgState :=
                 fold (\<lambda>i st. st(i := (st i)\<lparr>Msr := msr_Msr ReadOrWriteMsrRequest,
                                              Value := msr_Value ReadOrWriteMsrRequest\<rparr>))
                   [0 ..< unat ProcessorsCount] (g_DbgState m)\<rparr>;
               m2 = KeGenericCallDpc_DpcRoutineWriteMsrToAllCores env m1
           in (STATUS_SUCCESS, UserBuffer, 0, m2))
        else
          (if CoreNumber \<ge> ProcessorsCount then
             (STATUS_INVALID_PARAMETER, UserBuffer, ReturnSize, m)
           else
             (let m1 = m\<lparr>g_DbgState :=
                    (g_DbgState m)(unat CoreNumber :=
                       (g_DbgState m (unat CoreNumber))
                         \<lparr>Msr := msr_Msr ReadOrWriteMsrRequest,
                          Value := msr_Value ReadOrWriteMsrRequest\<rparr>)\<rparr>;
                  (Status, m2) = DpcRoutineRunTaskOnSingleCore env CoreNumber
                                   DpcRoutinePerformWriteMsr m1
              in (Status, UserBuffer, 0, m2))))
     else if msr_ActionType ReadOrWriteMsrRequest = DEBUGGER_MSR_READ then
       (if CoreNumber = DEBUGGER_READ_AND_WRITE_ON_MSR_APPLY_ALL_CORES env then
          (let m1 = m\<lparr>g_DbgState :=
                 fold (\<lambda>i st. st(i := (st i)\<lparr>Msr := msr_Msr ReadOrWriteMsrRequest\<rparr>))
                   [0 ..< unat ProcessorsCount] (g_DbgState m)\<rparr>;
               m2 = KeGenericCallDpc_DpcRoutineReadMsrToAllCores env m1;
               UserBuffer' = fold (\<lambda>i ub. ub(i := Value (g_DbgState m2 i)))
                               [0 ..< unat ProcessorsCount] UserBuffer
           in (STATUS_SUCCESS, UserBuffer', 8 * ucast ProcessorsCount, m2))
        else
          (if CoreNumber \<ge> ProcessorsCount then
             (STATUS_INVALID_PARAMETER, UserBuffer, 0, m)
           else
             (let m1 = m\<lparr>g_DbgState :=
                    (g_DbgState m)(unat CoreNumber :=
                       (g_DbgState m (unat CoreNumber))
                         \<lparr>Msr := msr_Msr ReadOrWriteMsrRequest\<rparr>)\<rparr>;
                  (Status, m2) = DpcRoutineRunTaskOnSingleCore env CoreNumber
                                   DpcRoutinePerformReadMsr m1
              in if Status \<noteq> STATUS_SUCCESS then (Status, UserBuffer, 0, m2)
                 else (STATUS_SUCCESS,
                       UserBuffer(0 := Value (g_DbgState m2 (unat CoreNumber))), 8, m2))))
     else (STATUS_UNSUCCESSFUL, UserBuffer, 0, m))"

section \<open>Editing memory from vmx-root\<close>

text \<open>
  The memory type of an edit request. The last constructor stands for any value of the
  field that is neither of the two named constants.
\<close>

datatype DEBUGGER_EDIT_MEMORY_TYPE =
    EDIT_VIRTUAL_MEMORY
  | EDIT_PHYSICAL_MEMORY
  | EDIT_MEMORY_TYPE_OTHER

text \<open>
  The fields of \<open>DEBUGGER_EDIT_MEMORY\<close> that the edit command uses. \<open>ByteSize\<close> is kept as
  the number stored in the field, since the command both compares it with the three
  selectors and multiplies it with the count. \<open>em_Payload i\<close> is the \<open>i\<close>-th 64-bit slot
  behind the header, at \<open>EditMemRequest + SIZEOF_DEBUGGER_EDIT_MEMORY + i * sizeof(UINT64)\<close>.
\<close>

record DEBUGGER_EDIT_MEMORY =
  em_Result :: DEBUGGER_STATUS
  em_Address :: UINT64
  em_ProcessId :: UINT32
  em_MemoryType :: DEBUGGER_EDIT_MEMORY_TYPE
  em_ByteSize :: UINT32
  em_CountOf64Chunks :: UINT32
  em_Payload :: "nat \<Rightarrow> UINT64"

text \<open>
  The constants and routines of the edit command, parameters since they are declared
  outside the command file: the numbers of the three selectors \<open>EDIT_BYTE\<close>,
  \<open>EDIT_DWORD\<close> and \<open>EDIT_QWORD\<close>, and the two safe writers, which take the destination,
  the source slot and the length and change the memory \<open>'mem\<close>.
\<close>

record 'mem edit_environment = memory_checks +
  EDIT_BYTE :: UINT32
  EDIT_DWORD :: UINT32
  EDIT_QWORD :: UINT32
  MemoryMapperWriteMemorySafeOnTargetProcess :: "UINT64 \<Rightarrow> UINT64 \<Rightarrow> UINT32 \<Rightarrow> 'mem \<Rightarrow> 'mem"
  MemoryMapperWriteMemorySafeByPhysicalAddress :: "UINT64 \<Rightarrow> UINT64 \<Rightarrow> UINT32 \<Rightarrow> 'mem \<Rightarrow> 'mem"

text \<open>
  \<open>DebuggerCommandEditMemoryVmxRoot\<close>. The result is the returned \<open>BOOLEAN\<close>, the request
  as the call left it and the memory. The product \<open>ByteSize * CountOf64Chunks\<close> handed
  to the check is a 32-bit product; the destination \<open>Address + i * LengthOfEachChunk\<close>
  is a 64-bit sum. The \<open>for\<close> loops are folds over \<open>0, \<dots>, CountOf64Chunks - 1\<close>.
\<close>

definition DebuggerCommandEditMemoryVmxRoot ::
  "'mem edit_environment \<Rightarrow> DEBUGGER_EDIT_MEMORY \<Rightarrow> 'mem \<Rightarrow> bool \<times> DEBUGGER_EDIT_MEMORY \<times> 'mem" where
  "DebuggerCommandEditMemoryVmxRoot env EditMemRequest mem =
    (let Body = (\<lambda>LengthOfEachChunk :: UINT32.
       if em_MemoryType EditMemRequest = EDIT_VIRTUAL_MEMORY then
         (if \<not> CheckAccessValidityAndSafety env (em_Address EditMemRequest)
                  (em_ByteSize EditMemRequest * em_CountOf64Chunks EditMemRequest) then
            (False, EditMemRequest\<lparr>em_Result := DEBUGGER_ERROR_INVALID_ADDRESS\<rparr>, mem)
          else
            (True, EditMemRequest\<lparr>em_Result := DEBUGGER_OPERATION_WAS_SUCCESSFUL\<rparr>,
             fold (\<lambda>i. MemoryMapperWriteMemorySafeOnTargetProcess env
                         (em_Address EditMemRequest + of_nat i * ucast LengthOfEachChunk)
                         (em_Payload EditMemRequest i) LengthOfEachChunk)
               [0 ..< unat (em_CountOf64Chunks EditMemRequest)] mem))
       else if em_MemoryType EditMemRequest = EDIT_PHYSICAL_MEMORY then
         (if \<not> CheckAddressPhysical env (em_Address EditMemRequest) then
            (False, EditMemRequest\<lparr>em_Result := DEBUGGER_ERROR_INVALID_ADDRESS\<rparr>, mem)
          else
            (True, EditMemRequest\<lparr>em_Result := DEBUGGER_OPERATION_WAS_SUCCESSFUL\<rparr>,
             fold (\<lambda>i. MemoryMapperWriteMemorySafeByPhysicalAddress env
                         (em_Address EditMemRequest + of_nat i * ucast LengthOfEachChunk)
                         (em_Payload EditMemRequest i) LengthOfEachChunk)
               [0 ..< unat (em_CountOf64Chunks EditMemRequest)] mem))
       else
         (False,
          EditMemRequest\<lparr>em_Result := DEBUGGER_ERROR_EDIT_MEMORY_STATUS_INVALID_PARAMETER\<rparr>, mem))
     in
     if em_ByteSize EditMemRequest = EDIT_BYTE env then Body 1
     else if em_ByteSize EditMemRequest = EDIT_DWORD env then Body 4
     else if em_ByteSize EditMemRequest = EDIT_QWORD env then Body 8
     else
       (False,
        EditMemRequest\<lparr>em_Result := DEBUGGER_ERROR_EDIT_MEMORY_STATUS_INVALID_PARAMETER\<rparr>, mem))"

section \<open>Searching memory\<close>

text \<open>
  The memory type and the chunk size of a search request. The last constructor of each
  stands for any value of the field that is none of the named constants.
\<close>

datatype DEBUGGER_SEARCH_MEMORY_TYPE =
    SEARCH_PHYSICAL_MEMORY
  | SEARCH_VIRTUAL_MEMORY
  | SEARCH_PHYSICAL_FROM_VIRTUAL_MEMORY
  | SEARCH_MEMORY_TYPE_OTHER

datatype DEBUGGER_SEARCH_MEMORY_BYTE_SIZE =
    SEARCH_BYTE
  | SEARCH_DWORD
  | SEARCH_QWORD
  | SEARCH_BYTE_SIZE_OTHER

text \<open>
  The fields of \<open>DEBUGGER_SEARCH_MEMORY\<close> that the search uses. \<open>sm_Payload i\<close> is the
  \<open>i\<close>-th 64-bit slot behind the header, at
  \<open>SearchMemRequest + SIZEOF_DEBUGGER_SEARCH_MEMORY + i * sizeof(UINT64)\<close>: the pattern.
\<close>

record DEBUGGER_SEARCH_MEMORY =
  sm_Address :: UINT64
  sm_Length :: UINT64
  sm_ProcessId :: UINT32
  sm_MemoryType :: DEBUGGER_SEARCH_MEMORY_TYPE
  sm_ByteSize :: DEBUGGER_SEARCH_MEMORY_BYTE_SIZE
  sm_CountOf64Chunks :: UINT32
  sm_Payload :: "nat \<Rightarrow> UINT64"

text \<open>
  The constants and routines of the search, parameters since they are declared outside
  the command file:
  \<^item> \<open>MaximumSearchResults\<close> and \<open>PAGE_SIZE\<close> (\<open>PAGE_ALIGN\<close> clears the bits below it);
  \<^item> \<open>TargetMemory\<close>, the byte that a read at a virtual address of the searched memory
    layout gives, and \<open>VirtualAddressToPhysicalAddress\<close> in that layout, zero for an
    address that is not mapped. Switching to the layout and back is not modelled
    beyond this;
  \<^item> the three translations from physical to virtual addresses;
  \<^item> the current process id, whether a process exists, and whether the allocation of
    the result storage succeeds.
\<close>

record search_environment =
  MaximumSearchResults :: UINT32
  PAGE_SIZE :: UINT64
  TargetMemory :: "UINT64 \<Rightarrow> UCHAR"
  VirtualAddressToPhysicalAddress :: "UINT64 \<Rightarrow> UINT64"
  PhysicalAddressToVirtualAddressOnTargetProcess :: "UINT64 \<Rightarrow> UINT64"
  PhysicalAddressToVirtualAddress :: "UINT64 \<Rightarrow> UINT64"
  PhysicalAddressToVirtualAddressByProcessId :: "UINT64 \<Rightarrow> UINT32 \<Rightarrow> UINT64"
  PsGetCurrentProcessId :: UINT32
  CommonIsProcessExist :: "UINT32 \<Rightarrow> bool"
  PlatformMemAllocateZeroedNonPagedPool_succeeds :: bool

definition PAGE_ALIGN :: "search_environment \<Rightarrow> UINT64 \<Rightarrow> UINT64" where
  "PAGE_ALIGN env Va = Va AND NOT (PAGE_SIZE env - 1)"

subsection \<open>\<open>PerformSearchAddress\<close>\<close>

text \<open>
  The value of \<open>Cmp64\<close> after \<open>LengthOfEachChunk\<close> bytes from an address have been copied
  into it, by \<open>RtlCopyMemory\<close> or by \<open>MemoryMapperReadMemorySafe\<close>: the bytes in
  little-endian order. \<open>Cmp64\<close> starts as zero and every copy overwrites its low
  \<open>LengthOfEachChunk\<close> bytes only, so its other bytes are zero throughout.
\<close>

fun CopyToCmp64 :: "(UINT64 \<Rightarrow> UCHAR) \<Rightarrow> UINT64 \<Rightarrow> nat \<Rightarrow> UINT64" where
  "CopyToCmp64 mem a 0 = 0"
| "CopyToCmp64 mem a (Suc n) = ucast (mem a) OR push_bit 8 (CopyToCmp64 mem (a + 1) n)"

text \<open>
  The local variables that live across the iterations of the outer loop, the result
  array behind \<open>AddressToSaveResults\<close> (a function from the index: the memory behind
  the pointer does not end with the array), and what has been logged. \<open>Stores\<close> is not a
  variable of the code: it records every index written in the result array, the latest
  first.
\<close>

record search_state =
  CountOfOccurance :: UINT32
  IndexToArrayOfResults :: UINT32
  AddressToSaveResults :: "nat \<Rightarrow> UINT64"
  LogOutput :: "UINT64 list"
  Stores :: "nat list"

text \<open>
  The inner \<open>for\<close> loop from index \<open>i\<close> on: \<open>StillMatch\<close> when it ends. The index is a
  \<open>size_t\<close> and stays below the 32-bit count.
\<close>

function PerformSearchAddress_StillMatch ::
  "search_environment \<Rightarrow> DEBUGGER_SEARCH_MEMORY \<Rightarrow> UINT32 \<Rightarrow> UINT64 \<Rightarrow> nat \<Rightarrow> bool" where
  "PerformSearchAddress_StillMatch env SearchMemRequest LengthOfEachChunk BaseIterator i =
     (if i < unat (sm_CountOf64Chunks SearchMemRequest) then
        (if \<not> (CopyToCmp64 (TargetMemory env)
                  (BaseIterator + ucast LengthOfEachChunk * of_nat i) (unat LengthOfEachChunk)
                = sm_Payload SearchMemRequest i)
         then False
         else PerformSearchAddress_StillMatch env SearchMemRequest LengthOfEachChunk
                BaseIterator (i + 1))
      else True)"
  by pat_completeness auto
termination
  by (relation "measure (\<lambda>(env, r, l, b, i). unat (sm_CountOf64Chunks r) - i)") auto

declare PerformSearchAddress_StillMatch.simps [simp del]

text \<open>
  The body of the outer loop at one candidate position: whether the function returns
  from inside the loop (the result buffer is full), and the state after the body.
\<close>

definition PerformSearchAddress_Body ::
  "search_environment \<Rightarrow> DEBUGGER_SEARCH_MEMORY \<Rightarrow> UINT32 \<Rightarrow> bool \<Rightarrow> UINT64 \<Rightarrow> search_state
    \<Rightarrow> bool \<times> search_state" where
  "PerformSearchAddress_Body env SearchMemRequest LengthOfEachChunk IsDebuggeePaused BaseIterator st =
     (if CopyToCmp64 (TargetMemory env) BaseIterator (unat LengthOfEachChunk)
           = sm_Payload SearchMemRequest 0 then
        (if PerformSearchAddress_StillMatch env SearchMemRequest LengthOfEachChunk BaseIterator
              (unat LengthOfEachChunk) then
           (let Found = (if sm_MemoryType SearchMemRequest = SEARCH_PHYSICAL_FROM_VIRTUAL_MEMORY
                         then VirtualAddressToPhysicalAddress env BaseIterator
                         else BaseIterator);
                st1 = st\<lparr>CountOfOccurance := CountOfOccurance st + 1\<rparr>;
                st2 = (if IsDebuggeePaused then st1\<lparr>LogOutput := LogOutput st1 @ [Found]\<rparr>
                       else st1\<lparr>AddressToSaveResults :=
                                  (AddressToSaveResults st1)
                                    (unat (IndexToArrayOfResults st1) := Found),
                                Stores := unat (IndexToArrayOfResults st1) # Stores st1\<rparr>)
            in if MaximumSearchResults env > IndexToArrayOfResults st2 then
                 (False, st2\<lparr>IndexToArrayOfResults := IndexToArrayOfResults st2 + 1\<rparr>)
               else (True, st2))
         else (False, st))
      else (False, st))"

text \<open>
  The outer \<open>for\<close> loop from \<open>BaseIterator\<close> on. The iterator is a 64-bit value and
  \<open>BaseIterator += LengthOfEachChunk\<close> can wrap around, so the loop need not end:
  \<open>None\<close> is a loop that runs forever. The result says whether the function returned
  from inside the loop, and gives the state at that point or at the end of the loop.
\<close>

partial_function (option) PerformSearchAddress_Loop ::
  "search_environment \<Rightarrow> DEBUGGER_SEARCH_MEMORY \<Rightarrow> UINT32 \<Rightarrow> bool \<Rightarrow> UINT64 \<Rightarrow> UINT64
    \<Rightarrow> search_state \<Rightarrow> (bool \<times> search_state) option" where
  "PerformSearchAddress_Loop env SearchMemRequest LengthOfEachChunk IsDebuggeePaused EndAddress
       BaseIterator st =
     (if BaseIterator < EndAddress then
        (case PerformSearchAddress_Body env SearchMemRequest LengthOfEachChunk IsDebuggeePaused
                BaseIterator st of
           (Returned, st') \<Rightarrow>
             if Returned then Some (True, st')
             else PerformSearchAddress_Loop env SearchMemRequest LengthOfEachChunk
                    IsDebuggeePaused EndAddress (BaseIterator + ucast LengthOfEachChunk) st')
      else Some (False, st))"

text \<open>
  \<open>PerformSearchAddress\<close>. The arguments are the result array, the request, the start and
  end address, \<open>IsDebuggeePaused\<close> and the value behind \<open>CountOfMatchedCases\<close> before the
  call. The result is the returned \<open>BOOLEAN\<close>, the result array, \<open>*CountOfMatchedCases\<close>,
  what was logged, and the indices written in the result array, the latest first.
\<close>

definition PerformSearchAddress ::
  "search_environment \<Rightarrow> (nat \<Rightarrow> UINT64) \<Rightarrow> DEBUGGER_SEARCH_MEMORY \<Rightarrow> UINT64 \<Rightarrow> UINT64 \<Rightarrow> bool
    \<Rightarrow> UINT32 \<Rightarrow> (bool \<times> (nat \<Rightarrow> UINT64) \<times> UINT32 \<times> UINT64 list \<times> nat list) option" where
  "PerformSearchAddress env Results SearchMemRequest StartAddress EndAddress IsDebuggeePaused
       CountOfMatchedCases =
    (let Search = (\<lambda>LengthOfEachChunk :: UINT32.
       if sm_MemoryType SearchMemRequest = SEARCH_VIRTUAL_MEMORY
          \<or> sm_MemoryType SearchMemRequest = SEARCH_PHYSICAL_FROM_VIRTUAL_MEMORY then
         map_option
           (\<lambda>(full, st). (True, AddressToSaveResults st, CountOfOccurance st, LogOutput st,
                           Stores st))
           (PerformSearchAddress_Loop env SearchMemRequest LengthOfEachChunk IsDebuggeePaused
              EndAddress StartAddress
              \<lparr>CountOfOccurance = 0, IndexToArrayOfResults = 0,
               AddressToSaveResults = Results, LogOutput = [], Stores = []\<rparr>)
       else Some (False, Results, CountOfMatchedCases, [], []))
     in
     if sm_ByteSize SearchMemRequest = SEARCH_BYTE then Search 1
     else if sm_ByteSize SearchMemRequest = SEARCH_DWORD then Search 4
     else if sm_ByteSize SearchMemRequest = SEARCH_QWORD then Search 8
     else Some (False, Results, CountOfMatchedCases, [], []))"

subsection \<open>\<open>SearchAddressWrapper\<close>\<close>

text \<open>
  The \<open>while\<close> loop that looks for a contiguous range, from \<open>StartAddress\<close> on. The
  address is a 64-bit value and \<open>StartAddress += PAGE_SIZE\<close> can wrap around, so the
  loop need not end: \<open>None\<close> is a loop that runs forever. The result is
  \<open>StartAddress\<close>, \<open>BaseAddress\<close> and \<open>DoesBaseAddrSaved\<close> after the loop.
\<close>

partial_function (option) SearchAddressWrapper_Walk ::
  "search_environment \<Rightarrow> UINT64 \<Rightarrow> UINT64 \<Rightarrow> UINT64 \<Rightarrow> UINT64 \<Rightarrow> bool
    \<Rightarrow> (UINT64 \<times> UINT64 \<times> bool) option" where
  "SearchAddressWrapper_Walk env EndAddress TempStartAddress StartAddress BaseAddress
       DoesBaseAddrSaved =
     (if StartAddress < EndAddress then
        (if VirtualAddressToPhysicalAddress env StartAddress \<noteq> 0 then
           SearchAddressWrapper_Walk env EndAddress TempStartAddress
             (StartAddress + PAGE_SIZE env)
             (if \<not> DoesBaseAddrSaved then TempStartAddress else BaseAddress) True
         else Some (StartAddress, BaseAddress, DoesBaseAddrSaved))
      else Some (StartAddress, BaseAddress, DoesBaseAddrSaved))"

text \<open>
  \<open>SearchAddressWrapper\<close>. The result is the returned \<open>BOOLEAN\<close>, the request as the
  call left it, the result array, \<open>*CountOfMatchedCases\<close>, what was logged, and the
  indices written in the result array.
\<close>

definition SearchAddressWrapper ::
  "search_environment \<Rightarrow> (nat \<Rightarrow> UINT64) \<Rightarrow> DEBUGGER_SEARCH_MEMORY \<Rightarrow> UINT64 \<Rightarrow> UINT64 \<Rightarrow> bool
    \<Rightarrow> (bool \<times> DEBUGGER_SEARCH_MEMORY \<times> (nat \<Rightarrow> UINT64) \<times> UINT32 \<times> UINT64 list \<times> nat list)
         option" where
  "SearchAddressWrapper env Results SearchMemRequest StartAddress EndAddress IsDebuggeePaused =
    (if sm_MemoryType SearchMemRequest = SEARCH_VIRTUAL_MEMORY then
       (case SearchAddressWrapper_Walk env EndAddress StartAddress (PAGE_ALIGN env StartAddress)
               0 False of
          None \<Rightarrow> None
        | Some (StartAddress', BaseAddress, DoesBaseAddrSaved) \<Rightarrow>
            if DoesBaseAddrSaved \<and> StartAddress' > BaseAddress then
              map_option (\<lambda>(SearchResult, Results', Count, Log, Stored).
                            (SearchResult, SearchMemRequest, Results', Count, Log, Stored))
                (PerformSearchAddress env Results SearchMemRequest BaseAddress EndAddress
                   IsDebuggeePaused 0)
            else Some (False, SearchMemRequest, Results, 0, [], []))
     else if sm_MemoryType SearchMemRequest = SEARCH_PHYSICAL_MEMORY then
       (let RealPhysicalAddress = sm_Address SearchMemRequest;
            (Address', EndAddress') =
              (if IsDebuggeePaused then
                 (PhysicalAddressToVirtualAddressOnTargetProcess env StartAddress,
                  PhysicalAddressToVirtualAddressOnTargetProcess env EndAddress)
               else if sm_ProcessId SearchMemRequest = PsGetCurrentProcessId env then
                 (PhysicalAddressToVirtualAddress env StartAddress,
                  PhysicalAddressToVirtualAddress env EndAddress)
               else
                 (PhysicalAddressToVirtualAddressByProcessId env StartAddress
                    (sm_ProcessId SearchMemRequest),
                  PhysicalAddressToVirtualAddressByProcessId env EndAddress
                    (sm_ProcessId SearchMemRequest)));
            Request1 = SearchMemRequest\<lparr>sm_Address := Address',
                         sm_MemoryType := SEARCH_PHYSICAL_FROM_VIRTUAL_MEMORY\<rparr>
        in map_option (\<lambda>(SearchResult, Results', Count, Log, Stored).
                         (SearchResult,
                          Request1\<lparr>sm_MemoryType := SEARCH_PHYSICAL_MEMORY,
                                   sm_Address := RealPhysicalAddress\<rparr>,
                          Results', Count, Log, Stored))
             (PerformSearchAddress env Results Request1 (sm_Address Request1) EndAddress'
                IsDebuggeePaused 0))
     else Some (False, SearchMemRequest, Results, 0, [], []))"

subsection \<open>\<open>DebuggerCommandSearchMemory\<close>\<close>

text \<open>
  The loop that moves the results to the user-mode buffer, from index \<open>i\<close> on: the
  user-mode buffer when it ends.
\<close>

function DebuggerCommandSearchMemory_Move ::
  "search_environment \<Rightarrow> (nat \<Rightarrow> UINT64) \<Rightarrow> UINT64 \<Rightarrow> UINT64 \<Rightarrow> nat \<Rightarrow> UINT32
    \<Rightarrow> (nat \<Rightarrow> UINT64) \<Rightarrow> (nat \<Rightarrow> UINT64)" where
  "DebuggerCommandSearchMemory_Move env SearchResultsStorage AddressFrom AddressTo i ResultsIndex
       UsermodeBuffer =
     (if i < unat (MaximumSearchResults env) then
        (if SearchResultsStorage i = 0 then UsermodeBuffer
         else if SearchResultsStorage i \<ge> AddressFrom \<and> SearchResultsStorage i \<le> AddressTo then
           DebuggerCommandSearchMemory_Move env SearchResultsStorage AddressFrom AddressTo (i + 1)
             (ResultsIndex + 1)
             (UsermodeBuffer(unat ResultsIndex := SearchResultsStorage i))
         else
           DebuggerCommandSearchMemory_Move env SearchResultsStorage AddressFrom AddressTo (i + 1)
             ResultsIndex UsermodeBuffer)
      else UsermodeBuffer)"
  by pat_completeness auto
termination
  by (relation "measure (\<lambda>(env, s, f, t, i, r, u). unat (MaximumSearchResults env) - i)") auto

declare DebuggerCommandSearchMemory_Move.simps [simp del]

text \<open>
  \<open>DebuggerCommandSearchMemory\<close>. The user-mode buffer is the memory of the request
  itself, seen as an array of \<open>UINT64\<close>; its content before the call is the last
  argument. The result storage is zeroed when it is allocated. The result is the
  returned status and the user-mode buffer.
\<close>

definition DebuggerCommandSearchMemory ::
  "search_environment \<Rightarrow> DEBUGGER_SEARCH_MEMORY \<Rightarrow> (nat \<Rightarrow> UINT64)
    \<Rightarrow> (NTSTATUS \<times> (nat \<Rightarrow> UINT64)) option" where
  "DebuggerCommandSearchMemory env SearchMemRequest UsermodeBuffer =
    (if sm_ProcessId SearchMemRequest \<noteq> PsGetCurrentProcessId env
        \<and> \<not> CommonIsProcessExist env (sm_ProcessId SearchMemRequest) then
       Some (STATUS_INVALID_PARAMETER, UsermodeBuffer)
     else
       (let AddressFrom = sm_Address SearchMemRequest;
            AddressTo = sm_Address SearchMemRequest + sm_Length SearchMemRequest
        in if \<not> PlatformMemAllocateZeroedNonPagedPool_succeeds env then
             Some (STATUS_INSUFFICIENT_RESOURCES, UsermodeBuffer)
           else
             map_option
               (\<lambda>(SearchResult, Request', SearchResultsStorage, CountOfResults, Log, Stored).
                  (STATUS_SUCCESS,
                   DebuggerCommandSearchMemory_Move env SearchResultsStorage AddressFrom AddressTo
                     0 0
                     (\<lambda>i. if i < unat (MaximumSearchResults env) then 0 else UsermodeBuffer i)))
               (SearchAddressWrapper env (\<lambda>i. 0) SearchMemRequest AddressFrom AddressTo False)))"

subsection \<open>Notions used to state the properties of the search\<close>

text \<open>
  The address recorded for a match at \<open>BaseIterator\<close>: its translation when the request
  is a physical search carried out on virtual addresses, otherwise the position itself.
\<close>

definition FoundAddress :: "search_environment \<Rightarrow> DEBUGGER_SEARCH_MEMORY \<Rightarrow> UINT64 \<Rightarrow> UINT64" where
  "FoundAddress env r B =
     (if sm_MemoryType r = SEARCH_PHYSICAL_FROM_VIRTUAL_MEMORY
      then VirtualAddressToPhysicalAddress env B else B)"

text \<open>
  The positions that \<open>PerformSearchAddress\<close> takes for a match: the chunk at the position
  equals the first pattern slot and the inner loop ends with \<open>StillMatch\<close>.
\<close>

definition position_reported ::
  "search_environment \<Rightarrow> DEBUGGER_SEARCH_MEMORY \<Rightarrow> UINT32 \<Rightarrow> UINT64 \<Rightarrow> bool" where
  "position_reported env r L B \<longleftrightarrow>
     CopyToCmp64 (TargetMemory env) B (unat L) = sm_Payload r 0
     \<and> PerformSearchAddress_StillMatch env r L B (unat L)"

text \<open>
  The state after \<open>n\<close> consecutive matches from \<open>B\<close> on were recorded, none of them
  filling the buffer.
\<close>

definition after_matches ::
  "search_environment \<Rightarrow> DEBUGGER_SEARCH_MEMORY \<Rightarrow> UINT32 \<Rightarrow> UINT64 \<Rightarrow> nat \<Rightarrow> search_state
    \<Rightarrow> search_state" where
  "after_matches env r L B n st =
     \<lparr>CountOfOccurance = CountOfOccurance st + of_nat n,
      IndexToArrayOfResults = IndexToArrayOfResults st + of_nat n,
      AddressToSaveResults =
        (\<lambda>i. if unat (IndexToArrayOfResults st) \<le> i \<and> i < unat (IndexToArrayOfResults st) + n
             then FoundAddress env r
                    (B + of_nat (i - unat (IndexToArrayOfResults st)) * ucast L)
             else AddressToSaveResults st i),
      LogOutput = LogOutput st,
      Stores = rev [unat (IndexToArrayOfResults st) ..< unat (IndexToArrayOfResults st) + n]
                 @ Stores st\<rparr>"







section \<open>Concrete requests and environments\<close>

text \<open>
  A read environment in which every read succeeds and yields \<open>0x90\<close> bytes, except
  that virtual address \<open>0x1002\<close> holds the trap opcode. Process 8 is a 32-bit
  process, the query fails for process 4, every other process is a 64-bit one. Two
  breakpoints are installed, at \<open>0x1002\<close> and at \<open>0x1004\<close>.
\<close>

definition example_read_environment :: read_environment where
  "example_read_environment =
     \<lparr> CheckAddressPhysical = (\<lambda>Address. True),
       CheckAccessValidityAndSafety = (\<lambda>Address Size. True),
       MemoryManagerReadProcessMemoryNormal =
         (\<lambda>Pid Address MemType UserBuffer Size ReturnSize.
            (True, (\<lambda>off. if off < ucast Size then 0x90 else UserBuffer off), ucast Size)),
       UserAccessIsWow64Process = (\<lambda>Pid. if Pid = 4 then None else Some (Pid = 8)),
       UserAccessIsWow64ProcessByEprocess_PsGetCurrentProcess = Some True,
       MemoryMapperReadMemorySafeByPhysicalAddress =
         (\<lambda>Address UserBuffer Size off. if off < ucast Size then 0x90 else UserBuffer off),
       MemoryMapperReadMemorySafeOnTargetProcess =
         (\<lambda>Address UserBuffer Size off.
            if off < ucast Size then (if Address + off = 0x1002 then 0xcc else 0x90)
            else UserBuffer off),
       g_BreakpointsListHead =
         [\<lparr>bp_Address = 0x1002, bp_PreviousByte = 0x55\<rparr>,
          \<lparr>bp_Address = 0x1004, bp_PreviousByte = 0x48\<rparr>] \<rparr>"

text \<open>A virtual read of four bytes at \<open>0x1000\<close> on behalf of process 8.\<close>

definition example_read_request :: DEBUGGER_READ_MEMORY where
  "example_read_request =
     \<lparr> rm_Pid = 8, rm_Address = 0x1000, rm_Size = 4, rm_GetAddressMode = True,
       rm_AddressMode = DEBUGGER_READ_ADDRESS_MODE_NOT_SET,
       rm_MemoryType = DEBUGGER_READ_VIRTUAL_ADDRESS,
       rm_KernelStatus = DEBUGGER_STATUS_NOT_SET \<rparr>"

text \<open>
  A machine of four cores. The broadcasts and the single-core dispatch carry out the
  staged slot on the hardware registers, and the dispatch always succeeds.
\<close>

definition example_msr_environment :: msr_environment where
  "example_msr_environment =
     \<lparr> KeQueryActiveProcessorCount = 4,
       DEBUGGER_READ_AND_WRITE_ON_MSR_APPLY_ALL_CORES = 0xffffffff,
       KeGenericCallDpc_DpcRoutineWriteMsrToAllCores =
         (\<lambda>m. m\<lparr>HardwareMsr := (\<lambda>i r. if i < 4 \<and> r = Msr (g_DbgState m i)
                                         then Value (g_DbgState m i) else HardwareMsr m i r)\<rparr>),
       KeGenericCallDpc_DpcRoutineReadMsrToAllCores =
         (\<lambda>m. m\<lparr>g_DbgState := (\<lambda>i. if i < 4
                   then (g_DbgState m i)\<lparr>Value := HardwareMsr m i (Msr (g_DbgState m i))\<rparr>
                   else g_DbgState m i)\<rparr>),
       DpcRoutineRunTaskOnSingleCore =
         (\<lambda>CoreNumber routine m.
            (STATUS_SUCCESS,
             (case routine of
                DpcRoutinePerformWriteMsr \<Rightarrow>
                  m\<lparr>HardwareMsr := (HardwareMsr m)(unat CoreNumber :=
                      (HardwareMsr m (unat CoreNumber))
                        (Msr (g_DbgState m (unat CoreNumber)) :=
                           Value (g_DbgState m (unat CoreNumber))))\<rparr>
              | DpcRoutinePerformReadMsr \<Rightarrow>
                  m\<lparr>g_DbgState := (g_DbgState m)(unat CoreNumber :=
                      (g_DbgState m (unat CoreNumber))
                        \<lparr>Value := HardwareMsr m (unat CoreNumber)
                                    (Msr (g_DbgState m (unat CoreNumber)))\<rparr>)\<rparr>))) \<rparr>"

definition example_msr_machine :: msr_machine where
  "example_msr_machine =
     \<lparr> g_DbgState = (\<lambda>i. \<lparr>Msr = 0, Value = 0\<rparr>),
       HardwareMsr = (\<lambda>i r. 0x11) \<rparr>"

text \<open>
  Two edit environments whose memory is the list of the writes made so far, each a
  destination, a source slot and a length, the latest first. In the first the three
  selectors are numbered \<open>0, 1, 2\<close> in the order of their names, and the access check
  accepts the ranges inside the four bytes from \<open>0x1000\<close>. In the second the selectors are
  numbered by their widths \<open>1, 4, 8\<close>, and the access check accepts empty ranges only.
\<close>

definition example_edit_environment :: "(UINT64 \<times> UINT64 \<times> UINT32) list edit_environment" where
  "example_edit_environment =
     \<lparr> CheckAddressPhysical = (\<lambda>Address. True),
       CheckAccessValidityAndSafety =
         (\<lambda>Address Size. 0x1000 \<le> Address \<and> unat Address + unat Size \<le> 0x1004),
       EDIT_BYTE = 0, EDIT_DWORD = 1, EDIT_QWORD = 2,
       MemoryMapperWriteMemorySafeOnTargetProcess = (\<lambda>d s l mem. (d, s, l) # mem),
       MemoryMapperWriteMemorySafeByPhysicalAddress = (\<lambda>d s l mem. (d, s, l) # mem) \<rparr>"

definition example_edit_environment_widths ::
  "(UINT64 \<times> UINT64 \<times> UINT32) list edit_environment" where
  "example_edit_environment_widths =
     \<lparr> CheckAddressPhysical = (\<lambda>Address. True),
       CheckAccessValidityAndSafety = (\<lambda>Address Size. Size = 0),
       EDIT_BYTE = 1, EDIT_DWORD = 4, EDIT_QWORD = 8,
       MemoryMapperWriteMemorySafeOnTargetProcess = (\<lambda>d s l mem. (d, s, l) # mem),
       MemoryMapperWriteMemorySafeByPhysicalAddress = (\<lambda>d s l mem. (d, s, l) # mem) \<rparr>"

text \<open>
  A search environment for a given memory content and address translation: room for
  \<open>0x1000\<close> results, pages of \<open>0x1000\<close> bytes, the current process is process 4.
\<close>

definition example_search_environment ::
  "(UINT64 \<Rightarrow> UCHAR) \<Rightarrow> (UINT64 \<Rightarrow> UINT64) \<Rightarrow> search_environment" where
  "example_search_environment mem translate =
     \<lparr> MaximumSearchResults = 0x1000, PAGE_SIZE = 0x1000,
       TargetMemory = mem,
       VirtualAddressToPhysicalAddress = translate,
       PhysicalAddressToVirtualAddressOnTargetProcess = (\<lambda>a. a - 0x100000),
       PhysicalAddressToVirtualAddress = (\<lambda>a. a - 0x100000),
       PhysicalAddressToVirtualAddressByProcessId = (\<lambda>a p. a - 0x100000),
       PsGetCurrentProcessId = 4,
       CommonIsProcessExist = (\<lambda>p. True),
       PlatformMemAllocateZeroedNonPagedPool_succeeds = True \<rparr>"

text \<open>
  A search for the byte \<open>0\<close> in \<open>0x2000\<close> bytes from \<open>0x10000\<close>, to be run on a memory
  of zeros: every position matches.
\<close>

definition zero_byte_request :: DEBUGGER_SEARCH_MEMORY where
  "zero_byte_request =
     \<lparr> sm_Address = 0x10000, sm_Length = 0x2000, sm_ProcessId = 4,
       sm_MemoryType = SEARCH_VIRTUAL_MEMORY, sm_ByteSize = SEARCH_BYTE,
       sm_CountOf64Chunks = 1, sm_Payload = (\<lambda>i. 0) \<rparr>"



text \<open>
  A search for the two doublewords \<open>0xAABBCCDD\<close>, \<open>0x11111111\<close> in the four bytes from
  \<open>0x1000\<close>, and a memory that holds \<open>0xAABBCCDD\<close> at \<open>0x1000\<close> and zeros elsewhere.
\<close>

definition dword_pattern_memory :: "UINT64 \<Rightarrow> UCHAR" where
  "dword_pattern_memory a =
     (if a = 0x1000 then 0xDD else if a = 0x1001 then 0xCC
      else if a = 0x1002 then 0xBB else if a = 0x1003 then 0xAA else 0)"

definition dword_pattern_request :: DEBUGGER_SEARCH_MEMORY where
  "dword_pattern_request =
     \<lparr> sm_Address = 0x1000, sm_Length = 4, sm_ProcessId = 4,
       sm_MemoryType = SEARCH_VIRTUAL_MEMORY, sm_ByteSize = SEARCH_DWORD,
       sm_CountOf64Chunks = 2,
       sm_Payload = (\<lambda>i. if i = 0 then 0xAABBCCDD else 0x11111111) \<rparr>"

text \<open>
  A search for the quadword \<open>0x41\<close> from \<open>0x1FF8\<close> to \<open>0x3008\<close>: the range starts in
  the page at \<open>0x1000\<close>, covers the page at \<open>0x2000\<close> and ends in the page at
  \<open>0x3000\<close>. The page at \<open>0x2000\<close> is not mapped, every other page is; a read at
  \<open>0x2000\<close> gives \<open>0x41\<close>, any other read gives zero.
\<close>

definition three_page_memory :: "UINT64 \<Rightarrow> UCHAR" where
  "three_page_memory a = (if a = 0x2000 then 0x41 else 0)"

definition three_page_translation :: "UINT64 \<Rightarrow> UINT64" where
  "three_page_translation a = (if 0x2000 \<le> a \<and> a < 0x3000 then 0 else a + 0x100000)"

definition three_page_request :: DEBUGGER_SEARCH_MEMORY where
  "three_page_request =
     \<lparr> sm_Address = 0x1FF8, sm_Length = 0x1010, sm_ProcessId = 4,
       sm_MemoryType = SEARCH_VIRTUAL_MEMORY, sm_ByteSize = SEARCH_QWORD,
       sm_CountOf64Chunks = 1, sm_Payload = (\<lambda>i. if i = 0 then 0x41 else 0) \<rparr>"

section \<open>Properties of the read commands\<close>

subsection \<open>Auxiliary facts\<close>

lemma loop_foldl:
  "ReadMemoryVmxRoot_BreakpointLoop A S ds b = foldl (unshadow_descriptor A S) b ds"
  by (induction ds arbitrary: b)
     (simp_all add: unshadow_descriptor_def bp_in_read_range_def Let_def)

lemma loop_keeps_other_bytes:
  "b off \<noteq> 0xcc \<Longrightarrow> ReadMemoryVmxRoot_BreakpointLoop A S ds b off = b off"
proof (induction ds arbitrary: b)
  case Nil
  then show ?case by simp
next
  case (Cons e es)
  show ?case
  proof (cases "bp_in_read_range A S e \<and> b (bp_Address e - A) = 0xcc")
    case True
    then have ne: "bp_Address e - A \<noteq> off" using Cons.prems by auto
    let ?b = "b(bp_Address e - A := bp_PreviousByte e)"
    have "?b off \<noteq> 0xcc" using ne Cons.prems by simp
    then have "ReadMemoryVmxRoot_BreakpointLoop A S es ?b off = ?b off" by (rule Cons.IH)
    then show ?thesis using True ne by (simp add: bp_in_read_range_def)
  next
    case False
    have "ReadMemoryVmxRoot_BreakpointLoop A S es b off = b off" using Cons.prems by (rule Cons.IH)
    then show ?thesis using False by (auto simp: bp_in_read_range_def Let_def)
  qed
qed

lemma loop_untouched:
  "\<forall>d\<in>set ds. bp_in_read_range A S d \<longrightarrow> bp_Address d - A \<noteq> off \<Longrightarrow>
   ReadMemoryVmxRoot_BreakpointLoop A S ds b off = b off"
  by (induction ds arbitrary: b) (auto simp: Let_def bp_in_read_range_def)

lemma loop_distinct:
  "distinct (map bp_Address ds) \<Longrightarrow> d \<in> set ds \<Longrightarrow> bp_in_read_range A S d \<Longrightarrow>
   ReadMemoryVmxRoot_BreakpointLoop A S ds b (bp_Address d - A) =
     (if b (bp_Address d - A) = 0xcc then bp_PreviousByte d else b (bp_Address d - A))"
proof (induction ds arbitrary: b)
  case Nil
  then show ?case by simp
next
  case (Cons e es)
  show ?case
  proof (cases "e = d")
    case True
    have rest: "\<forall>x\<in>set es. bp_in_read_range A S x \<longrightarrow> bp_Address x - A \<noteq> bp_Address d - A"
    proof (intro ballI impI)
      fix x assume x: "x \<in> set es"
      have "bp_Address d \<notin> bp_Address ` set es" using Cons.prems(1) True by simp
      moreover have "bp_Address x \<in> bp_Address ` set es" using x by (rule imageI)
      ultimately have "bp_Address x \<noteq> bp_Address d" by metis
      then show "bp_Address x - A \<noteq> bp_Address d - A" by simp
    qed
    show ?thesis
      using True Cons.prems(3) loop_untouched [OF rest]
      by (simp add: Let_def bp_in_read_range_def)
  next
    case False
    then have d_in: "d \<in> set es" using Cons.prems(2) by simp
    have ne: "bp_Address e \<noteq> bp_Address d" using Cons.prems(1) d_in by auto
    have dist: "distinct (map bp_Address es)" using Cons.prems(1) by simp
    show ?thesis
      using Cons.IH [OF dist d_in Cons.prems(3)] ne
      by (simp add: Let_def)
  qed
qed

lemma le_max_UINT64: "(x :: 64 word) \<le> 0xFFFFFFFFFFFFFFFF"
proof -
  have "(0xFFFFFFFFFFFFFFFF :: 64 word) = - 1" by simp
  then show ?thesis by (simp only: word_n1_ge)
qed

lemma ReadMemory_success_mode:
  assumes "DebuggerCommandReadMemory env req buf rs = (True, req', buf', rs')"
      and "rm_MemoryType req = DEBUGGER_READ_VIRTUAL_ADDRESS" and "rm_GetAddressMode req"
  shows "rm_AddressMode req' =
     (if 0xFFFF800000000000 \<le> rm_Address req then DEBUGGER_READ_ADDRESS_MODE_64_BIT
      else case UserAccessIsWow64Process env (rm_Pid req) of
             Some True \<Rightarrow> DEBUGGER_READ_ADDRESS_MODE_32_BIT
           | Some False \<Rightarrow> DEBUGGER_READ_ADDRESS_MODE_64_BIT
           | None \<Rightarrow> DEBUGGER_READ_ADDRESS_MODE_64_BIT)"
  using assms
  by (auto simp: DebuggerCommandReadMemory_def Let_def le_max_UINT64
           split: prod.splits bool.splits if_splits option.splits)

lemma ReadMemoryVmxRoot_success_mode:
  assumes "DebuggerCommandReadMemoryVmxRoot env req buf rs = (True, req', buf', rs')"
      and "rm_MemoryType req = DEBUGGER_READ_VIRTUAL_ADDRESS" and "rm_GetAddressMode req"
  shows "rm_AddressMode req' =
     (if 0xFFFF800000000000 \<le> rm_Address req then DEBUGGER_READ_ADDRESS_MODE_64_BIT
      else case UserAccessIsWow64ProcessByEprocess_PsGetCurrentProcess env of
             Some True \<Rightarrow> DEBUGGER_READ_ADDRESS_MODE_32_BIT
           | Some False \<Rightarrow> DEBUGGER_READ_ADDRESS_MODE_64_BIT
           | None \<Rightarrow> DEBUGGER_READ_ADDRESS_MODE_64_BIT)"
  using assms
  by (auto simp: DebuggerCommandReadMemoryVmxRoot_def Let_def le_max_UINT64
           split: prod.splits bool.splits if_splits option.splits)

lemma ReadMemoryVmxRoot_virtual:
  assumes "rm_MemoryType req = DEBUGGER_READ_VIRTUAL_ADDRESS"
      and "CheckAccessValidityAndSafety env (rm_Address req) (rm_Size req)"
      and "DebuggerCommandReadMemoryVmxRoot env req buf rs = (ok, req', buf', rs')"
  shows "ok \<and> rs' = rm_Size req \<and> buf' =
     ReadMemoryVmxRoot_BreakpointLoop (rm_Address req) (rm_Size req) (g_BreakpointsListHead env)
       (MemoryMapperReadMemorySafeOnTargetProcess env (rm_Address req) buf (rm_Size req))"
  using assms
  by (auto simp: DebuggerCommandReadMemoryVmxRoot_def Let_def)

subsection \<open>Invalid read parameters\<close>

text \<open>
  C6. A normal-context read request whose size is zero or whose address is zero returns
  \<open>FALSE\<close> with the invalid-parameter status, and leaves the user buffer and the
  return size exactly as they were, whatever the memory reader would have done; a read
  that returns \<open>TRUE\<close> had a non-zero size and a non-zero address.
\<close>

theorem read_invalid_parameter:
  "(rm_Size req = 0 \<or> rm_Address req = 0 \<longrightarrow>
      DebuggerCommandReadMemory env req buf rs =
        (False, req\<lparr>rm_KernelStatus := DEBUGGER_ERROR_READING_MEMORY_INVALID_PARAMETER\<rparr>, buf, rs))
   \<and> (fst (DebuggerCommandReadMemory env req buf rs) \<longrightarrow>
        rm_Size req \<noteq> 0 \<and> rm_Address req \<noteq> 0)"
  by (auto simp: DebuggerCommandReadMemory_def Let_def split: prod.splits bool.splits)

theorem read_invalid_parameter_witness:
  "DebuggerCommandReadMemory example_read_environment (example_read_request\<lparr>rm_Size := 0\<rparr>)
       (\<lambda>off. 0xcc) 7 =
     (False,
      example_read_request
        \<lparr>rm_Size := 0, rm_KernelStatus := DEBUGGER_ERROR_READING_MEMORY_INVALID_PARAMETER\<rparr>,
      (\<lambda>off. 0xcc), 7)
   \<and> DebuggerCommandReadMemory example_read_environment (example_read_request\<lparr>rm_Address := 0\<rparr>)
       (\<lambda>off. 0xcc) 7 =
     (False,
      example_read_request
        \<lparr>rm_Address := 0, rm_KernelStatus := DEBUGGER_ERROR_READING_MEMORY_INVALID_PARAMETER\<rparr>,
      (\<lambda>off. 0xcc), 7)
   \<and> fst (DebuggerCommandReadMemory example_read_environment example_read_request (\<lambda>off. 0xcc) 7)
   \<and> rm_Size example_read_request \<noteq> 0 \<and> rm_Address example_read_request \<noteq> 0"
  using read_invalid_parameter [of "example_read_request\<lparr>rm_Size := 0\<rparr>"
          example_read_environment "\<lambda>off. 0xcc" 7]
        read_invalid_parameter [of "example_read_request\<lparr>rm_Address := 0\<rparr>"
          example_read_environment "\<lambda>off. 0xcc" 7]
        read_invalid_parameter [of example_read_request
          example_read_environment "\<lambda>off. 0xcc" 7]
  by (simp add: example_read_request_def example_read_environment_def
        DebuggerCommandReadMemory_def)

subsection \<open>Address-mode inference\<close>

text \<open>
  C5. After a successful virtual read with \<open>GetAddressMode\<close> set, in the normal and in
  the vmx-root context: an address from \<open>0xFFFF800000000000\<close> upwards is reported as
  64-bit whatever the process is; an address below is reported as 32-bit or 64-bit as
  the WOW64 query answers, and as 64-bit when the query fails. (The first component of
  a result is the returned \<open>BOOLEAN\<close>, the second the request as the call left it.)
\<close>

theorem address_mode_inference:
  "(fst (DebuggerCommandReadMemory env req buf rs)
      \<and> rm_MemoryType req = DEBUGGER_READ_VIRTUAL_ADDRESS \<and> rm_GetAddressMode req \<longrightarrow>
      (0xFFFF800000000000 \<le> rm_Address req \<longrightarrow>
         rm_AddressMode (fst (snd (DebuggerCommandReadMemory env req buf rs)))
           = DEBUGGER_READ_ADDRESS_MODE_64_BIT)
      \<and> (rm_Address req < 0xFFFF800000000000 \<longrightarrow>
         rm_AddressMode (fst (snd (DebuggerCommandReadMemory env req buf rs))) =
           (case UserAccessIsWow64Process env (rm_Pid req) of
              Some True \<Rightarrow> DEBUGGER_READ_ADDRESS_MODE_32_BIT
            | Some False \<Rightarrow> DEBUGGER_READ_ADDRESS_MODE_64_BIT
            | None \<Rightarrow> DEBUGGER_READ_ADDRESS_MODE_64_BIT)))
   \<and> (fst (DebuggerCommandReadMemoryVmxRoot env req buf rsv)
      \<and> rm_MemoryType req = DEBUGGER_READ_VIRTUAL_ADDRESS \<and> rm_GetAddressMode req \<longrightarrow>
      (0xFFFF800000000000 \<le> rm_Address req \<longrightarrow>
         rm_AddressMode (fst (snd (DebuggerCommandReadMemoryVmxRoot env req buf rsv)))
           = DEBUGGER_READ_ADDRESS_MODE_64_BIT)
      \<and> (rm_Address req < 0xFFFF800000000000 \<longrightarrow>
         rm_AddressMode (fst (snd (DebuggerCommandReadMemoryVmxRoot env req buf rsv))) =
           (case UserAccessIsWow64ProcessByEprocess_PsGetCurrentProcess env of
              Some True \<Rightarrow> DEBUGGER_READ_ADDRESS_MODE_32_BIT
            | Some False \<Rightarrow> DEBUGGER_READ_ADDRESS_MODE_64_BIT
            | None \<Rightarrow> DEBUGGER_READ_ADDRESS_MODE_64_BIT)))"
proof -
  have eq: "fst r \<Longrightarrow> r = (True, fst (snd r), fst (snd (snd r)), snd (snd (snd r)))"
    for r :: "bool \<times> DEBUGGER_READ_MEMORY \<times> buffer \<times> 'c"
    by (cases r) simp
  have below: "x < 0xFFFF800000000000 \<Longrightarrow> \<not> 0xFFFF800000000000 \<le> x" for x :: UINT64
    by (simp add: not_le)
  show ?thesis
  proof (intro conjI impI)
    assume h: "fst (DebuggerCommandReadMemory env req buf rs)
      \<and> rm_MemoryType req = DEBUGGER_READ_VIRTUAL_ADDRESS \<and> rm_GetAddressMode req"
    note m = ReadMemory_success_mode [OF eq [of "DebuggerCommandReadMemory env req buf rs"]]
    { assume "0xFFFF800000000000 \<le> rm_Address req"
      then show "rm_AddressMode (fst (snd (DebuggerCommandReadMemory env req buf rs)))
           = DEBUGGER_READ_ADDRESS_MODE_64_BIT" using h m by simp }
    { assume "rm_Address req < 0xFFFF800000000000"
      then show "rm_AddressMode (fst (snd (DebuggerCommandReadMemory env req buf rs))) =
           (case UserAccessIsWow64Process env (rm_Pid req) of
              Some True \<Rightarrow> DEBUGGER_READ_ADDRESS_MODE_32_BIT
            | Some False \<Rightarrow> DEBUGGER_READ_ADDRESS_MODE_64_BIT
            | None \<Rightarrow> DEBUGGER_READ_ADDRESS_MODE_64_BIT)" using h m below by simp }
  next
    assume h: "fst (DebuggerCommandReadMemoryVmxRoot env req buf rsv)
      \<and> rm_MemoryType req = DEBUGGER_READ_VIRTUAL_ADDRESS \<and> rm_GetAddressMode req"
    note m = ReadMemoryVmxRoot_success_mode
               [OF eq [of "DebuggerCommandReadMemoryVmxRoot env req buf rsv"]]
    { assume "0xFFFF800000000000 \<le> rm_Address req"
      then show "rm_AddressMode (fst (snd (DebuggerCommandReadMemoryVmxRoot env req buf rsv)))
           = DEBUGGER_READ_ADDRESS_MODE_64_BIT" using h m by simp }
    { assume "rm_Address req < 0xFFFF800000000000"
      then show "rm_AddressMode (fst (snd (DebuggerCommandReadMemoryVmxRoot env req buf rsv))) =
           (case UserAccessIsWow64ProcessByEprocess_PsGetCurrentProcess env of
              Some True \<Rightarrow> DEBUGGER_READ_ADDRESS_MODE_32_BIT
            | Some False \<Rightarrow> DEBUGGER_READ_ADDRESS_MODE_64_BIT
            | None \<Rightarrow> DEBUGGER_READ_ADDRESS_MODE_64_BIT)" using h m below by simp }
  qed
qed

theorem address_mode_inference_witness:
  "rm_AddressMode (fst (snd (DebuggerCommandReadMemory example_read_environment
       (example_read_request\<lparr>rm_Address := 0xFFFFF80000001000\<rparr>) (\<lambda>off. 0) 0)))
     = DEBUGGER_READ_ADDRESS_MODE_64_BIT
   \<and> rm_AddressMode (fst (snd (DebuggerCommandReadMemoryVmxRoot example_read_environment
       (example_read_request\<lparr>rm_Address := 0xFFFFF80000001000\<rparr>) (\<lambda>off. 0) 0)))
     = DEBUGGER_READ_ADDRESS_MODE_64_BIT
   \<and> rm_AddressMode (fst (snd (DebuggerCommandReadMemory example_read_environment
       example_read_request (\<lambda>off. 0) 0)))
     = DEBUGGER_READ_ADDRESS_MODE_32_BIT
   \<and> rm_AddressMode (fst (snd (DebuggerCommandReadMemoryVmxRoot example_read_environment
       example_read_request (\<lambda>off. 0) 0)))
     = DEBUGGER_READ_ADDRESS_MODE_32_BIT
   \<and> rm_AddressMode (fst (snd (DebuggerCommandReadMemory example_read_environment
       (example_read_request\<lparr>rm_Pid := 4\<rparr>) (\<lambda>off. 0) 0)))
     = DEBUGGER_READ_ADDRESS_MODE_64_BIT
   \<and> rm_AddressMode (fst (snd (DebuggerCommandReadMemoryVmxRoot
       (example_read_environment\<lparr>UserAccessIsWow64ProcessByEprocess_PsGetCurrentProcess := None\<rparr>)
       example_read_request (\<lambda>off. 0) 0)))
     = DEBUGGER_READ_ADDRESS_MODE_64_BIT"
proof -
  let ?E = example_read_environment
  let ?N = "example_read_environment\<lparr>UserAccessIsWow64ProcessByEprocess_PsGetCurrentProcess := None\<rparr>"
  let ?K = "example_read_request\<lparr>rm_Address := 0xFFFFF80000001000\<rparr>"
  let ?U = example_read_request
  let ?Q = "example_read_request\<lparr>rm_Pid := 4\<rparr>"
  let ?B = "\<lambda>off :: UINT64. 0 :: UCHAR"
  have ok: "fst (DebuggerCommandReadMemory ?E ?K ?B 0)"
      "fst (DebuggerCommandReadMemoryVmxRoot ?E ?K ?B 0)"
      "fst (DebuggerCommandReadMemory ?E ?U ?B 0)"
      "fst (DebuggerCommandReadMemoryVmxRoot ?E ?U ?B 0)"
      "fst (DebuggerCommandReadMemory ?E ?Q ?B 0)"
      "fst (DebuggerCommandReadMemoryVmxRoot ?N ?U ?B 0)"
    by (simp_all add: example_read_request_def example_read_environment_def
          DebuggerCommandReadMemory_def DebuggerCommandReadMemoryVmxRoot_def)
  have flags: "rm_MemoryType ?K = DEBUGGER_READ_VIRTUAL_ADDRESS" "rm_GetAddressMode ?K"
      "rm_MemoryType ?U = DEBUGGER_READ_VIRTUAL_ADDRESS" "rm_GetAddressMode ?U"
      "rm_MemoryType ?Q = DEBUGGER_READ_VIRTUAL_ADDRESS" "rm_GetAddressMode ?Q"
      "(0xFFFF800000000000 :: UINT64) \<le> rm_Address ?K"
      "rm_Address ?U < 0xFFFF800000000000" "rm_Address ?Q < 0xFFFF800000000000"
      "UserAccessIsWow64Process ?E (rm_Pid ?U) = Some True"
      "UserAccessIsWow64Process ?E (rm_Pid ?Q) = None"
      "UserAccessIsWow64ProcessByEprocess_PsGetCurrentProcess ?E = Some True"
      "UserAccessIsWow64ProcessByEprocess_PsGetCurrentProcess ?N = None"
    by (simp_all add: example_read_request_def example_read_environment_def)
  show ?thesis
    using address_mode_inference [of ?E ?K ?B 0 0]
          address_mode_inference [of ?E ?U ?B 0 0]
          address_mode_inference [of ?E ?Q ?B 0 0]
          address_mode_inference [of ?N ?U ?B 0 0]
          ok flags
    by simp
qed

subsection \<open>Breakpoint masking\<close>

text \<open>
  C4. A vmx-root virtual read that passes the access check returns \<open>TRUE\<close>, and its
  final buffer is the raw copy with every breakpoint descriptor un-shadowed in list
  order: each descriptor whose address lies within \<open>[Address, Address + Size]\<close> has
  the byte at its offset replaced by its previous byte when that byte is \<open>0xCC\<close>. A
  byte whose raw value is not \<open>0xCC\<close> is never changed, nor is a byte at an offset of
  no overlapping descriptor; and when no two descriptors share an address, the byte
  of each overlapping descriptor ends as the previous byte if it was read as \<open>0xCC\<close>
  and as the raw byte otherwise.
\<close>

theorem vmxroot_read_unshadows_breakpoints:
  assumes "rm_MemoryType req = DEBUGGER_READ_VIRTUAL_ADDRESS"
      and "CheckAccessValidityAndSafety env (rm_Address req) (rm_Size req)"
      and "DebuggerCommandReadMemoryVmxRoot env req buf rs = (ok, req', buf', rs')"
      and "raw = MemoryMapperReadMemorySafeOnTargetProcess env (rm_Address req) buf (rm_Size req)"
  shows "ok
    \<and> buf' = foldl (unshadow_descriptor (rm_Address req) (rm_Size req)) raw
               (g_BreakpointsListHead env)
    \<and> (\<forall>off. raw off \<noteq> 0xcc \<longrightarrow> buf' off = raw off)
    \<and> (\<forall>off. (\<forall>d \<in> set (g_BreakpointsListHead env).
                 bp_in_read_range (rm_Address req) (rm_Size req) d \<longrightarrow>
                 bp_Address d - rm_Address req \<noteq> off) \<longrightarrow> buf' off = raw off)
    \<and> (distinct (map bp_Address (g_BreakpointsListHead env)) \<longrightarrow>
        (\<forall>d \<in> set (g_BreakpointsListHead env).
           bp_in_read_range (rm_Address req) (rm_Size req) d \<longrightarrow>
           buf' (bp_Address d - rm_Address req) =
             (if raw (bp_Address d - rm_Address req) = 0xcc then bp_PreviousByte d
              else raw (bp_Address d - rm_Address req))))"
proof -
  let ?bps = "g_BreakpointsListHead env"
  have r: "ok \<and> rs' = rm_Size req \<and>
      buf' = ReadMemoryVmxRoot_BreakpointLoop (rm_Address req) (rm_Size req) ?bps raw"
    using ReadMemoryVmxRoot_virtual [OF assms(1,2,3)] assms(4) by simp
  then have b: "buf' = ReadMemoryVmxRoot_BreakpointLoop (rm_Address req) (rm_Size req) ?bps raw"
    by simp
  have 1: "ok" using r by simp
  have 2: "buf' = foldl (unshadow_descriptor (rm_Address req) (rm_Size req)) raw ?bps"
    unfolding b by (rule loop_foldl)
  have 3: "\<forall>off. raw off \<noteq> 0xcc \<longrightarrow> buf' off = raw off"
    unfolding b using loop_keeps_other_bytes by blast
  have 4: "\<forall>off. (\<forall>d \<in> set ?bps.
                 bp_in_read_range (rm_Address req) (rm_Size req) d \<longrightarrow>
                 bp_Address d - rm_Address req \<noteq> off) \<longrightarrow> buf' off = raw off"
    unfolding b using loop_untouched by blast
  have 5: "distinct (map bp_Address ?bps) \<longrightarrow>
        (\<forall>d \<in> set ?bps.
           bp_in_read_range (rm_Address req) (rm_Size req) d \<longrightarrow>
           buf' (bp_Address d - rm_Address req) =
             (if raw (bp_Address d - rm_Address req) = 0xcc then bp_PreviousByte d
              else raw (bp_Address d - rm_Address req)))"
    unfolding b using loop_distinct by blast
  show ?thesis using 1 2 3 4 5 by (intro conjI)
qed

theorem vmxroot_read_unshadows_breakpoints_witness:
  "fst (DebuggerCommandReadMemoryVmxRoot example_read_environment example_read_request
          (\<lambda>off. 0) 0)
   \<and> fst (snd (snd (DebuggerCommandReadMemoryVmxRoot example_read_environment
          example_read_request (\<lambda>off. 0) 0))) 2 = 0x55
   \<and> fst (snd (snd (DebuggerCommandReadMemoryVmxRoot example_read_environment
          example_read_request (\<lambda>off. 0) 0))) 1 = 0x90"
proof -
  let ?E = example_read_environment
  let ?R = example_read_request
  let ?B = "\<lambda>off :: UINT64. 0 :: UCHAR"
  let ?raw = "MemoryMapperReadMemorySafeOnTargetProcess ?E (rm_Address ?R) ?B (rm_Size ?R)"
  obtain ok req' buf' rs' where
    res: "DebuggerCommandReadMemoryVmxRoot ?E ?R ?B 0 = (ok, req', buf', rs')"
    by (rule prod_cases4)
  have virt: "rm_MemoryType ?R = DEBUGGER_READ_VIRTUAL_ADDRESS"
    by (simp add: example_read_request_def)
  have chk: "CheckAccessValidityAndSafety ?E (rm_Address ?R) (rm_Size ?R)"
    by (simp add: example_read_environment_def)
  note t = vmxroot_read_unshadows_breakpoints [OF virt chk res refl]
  have d: "distinct (map bp_Address (g_BreakpointsListHead ?E))"
    by (simp add: example_read_environment_def)
  have m: "\<lparr>bp_Address = 0x1002, bp_PreviousByte = 0x55\<rparr> \<in> set (g_BreakpointsListHead ?E)"
    by (simp add: example_read_environment_def)
  have i: "bp_in_read_range (rm_Address ?R) (rm_Size ?R)
             \<lparr>bp_Address = 0x1002, bp_PreviousByte = 0x55\<rparr>"
    by (simp add: bp_in_read_range_def example_read_request_def)
  have raw2: "?raw 2 = 0xcc" and raw1: "?raw 1 = 0x90"
    by (simp_all add: example_read_environment_def example_read_request_def)
  note t3 = conjunct1 [OF conjunct2 [OF conjunct2 [OF t]]]
  note t5 = conjunct2 [OF conjunct2 [OF conjunct2 [OF conjunct2 [OF t]]]]
  have "buf' (bp_Address \<lparr>bp_Address = 0x1002, bp_PreviousByte = 0x55\<rparr> - rm_Address ?R) =
     (if ?raw (bp_Address \<lparr>bp_Address = 0x1002, bp_PreviousByte = 0x55\<rparr> - rm_Address ?R) = 0xcc
      then bp_PreviousByte \<lparr>bp_Address = 0x1002, bp_PreviousByte = 0x55\<rparr>
      else ?raw (bp_Address \<lparr>bp_Address = 0x1002, bp_PreviousByte = 0x55\<rparr> - rm_Address ?R))"
    by (rule t5 [rule_format, OF d m i])
  then have b2: "buf' 2 = 0x55"
    using raw2 by (simp add: example_read_request_def)
  have b1: "buf' 1 = 0x90"
    using t3 [rule_format, of 1] raw1 by simp
  have "ok" by (rule conjunct1 [OF t])
  then show ?thesis using b1 b2 res by simp
qed

subsection \<open>The upper end of the overlap test\<close>

text \<open>
  C9. The overlap test of the vmx-root read includes both ends. When \<open>Address + Size\<close>
  does not wrap around, a descriptor whose address is exactly \<open>Address + Size\<close>
  overlaps, its offset in the user buffer is \<open>Size\<close>, which is past the offsets
  \<open>0\<close> to \<open>Size - 1\<close> of the bytes asked for, and (no two descriptors sharing an
  address) the byte at offset \<open>Size\<close> is inspected and ends as the descriptor's previous
  byte when it was \<open>0xCC\<close>.
\<close>

theorem vmxroot_read_touches_offset_size:
  assumes "rm_MemoryType req = DEBUGGER_READ_VIRTUAL_ADDRESS"
      and "CheckAccessValidityAndSafety env (rm_Address req) (rm_Size req)"
      and "DebuggerCommandReadMemoryVmxRoot env req buf rs = (ok, req', buf', rs')"
      and "raw = MemoryMapperReadMemorySafeOnTargetProcess env (rm_Address req) buf (rm_Size req)"
      and "d \<in> set (g_BreakpointsListHead env)"
      and "bp_Address d = rm_Address req + ucast (rm_Size req)"
      and "rm_Address req \<le> rm_Address req + ucast (rm_Size req)"
      and "distinct (map bp_Address (g_BreakpointsListHead env))"
  shows "bp_in_read_range (rm_Address req) (rm_Size req) d
    \<and> bp_Address d - rm_Address req = ucast (rm_Size req)
    \<and> \<not> (ucast (rm_Size req) :: UINT64) < ucast (rm_Size req)
    \<and> buf' (ucast (rm_Size req)) =
        (if raw (ucast (rm_Size req)) = 0xcc then bp_PreviousByte d
         else raw (ucast (rm_Size req)))"
proof -
  have r: "buf' = ReadMemoryVmxRoot_BreakpointLoop (rm_Address req) (rm_Size req)
             (g_BreakpointsListHead env) raw"
    using ReadMemoryVmxRoot_virtual [OF assms(1,2,3)] assms(4) by simp
  have i: "bp_in_read_range (rm_Address req) (rm_Size req) d"
    using assms(6,7) by (simp add: bp_in_read_range_def)
  have o: "bp_Address d - rm_Address req = ucast (rm_Size req)"
    using assms(6) by simp
  have "buf' (bp_Address d - rm_Address req) =
        (if raw (bp_Address d - rm_Address req) = 0xcc then bp_PreviousByte d
         else raw (bp_Address d - rm_Address req))"
    unfolding r by (rule loop_distinct [OF assms(8) assms(5) i])
  then show ?thesis using i o by simp
qed

theorem vmxroot_read_touches_offset_size_witness:
  "fst (snd (snd (DebuggerCommandReadMemoryVmxRoot example_read_environment
          example_read_request (\<lambda>off. 0xcc) 0))) 4 = 0x48"
proof -
  let ?E = example_read_environment
  let ?R = example_read_request
  let ?B = "\<lambda>off :: UINT64. 0xcc :: UCHAR"
  let ?d = "\<lparr>bp_Address = 0x1004, bp_PreviousByte = 0x48\<rparr>"
  obtain ok req' buf' rs' where
    res: "DebuggerCommandReadMemoryVmxRoot ?E ?R ?B 0 = (ok, req', buf', rs')"
    by (rule prod_cases4)
  have virt: "rm_MemoryType ?R = DEBUGGER_READ_VIRTUAL_ADDRESS"
    by (simp add: example_read_request_def)
  have chk: "CheckAccessValidityAndSafety ?E (rm_Address ?R) (rm_Size ?R)"
    by (simp add: example_read_environment_def)
  have m: "?d \<in> set (g_BreakpointsListHead ?E)"
    by (simp add: example_read_environment_def)
  have a: "bp_Address ?d = rm_Address ?R + ucast (rm_Size ?R)"
    by (simp add: example_read_request_def)
  have nw: "rm_Address ?R \<le> rm_Address ?R + ucast (rm_Size ?R)"
    by (simp add: example_read_request_def)
  have dist: "distinct (map bp_Address (g_BreakpointsListHead ?E))"
    by (simp add: example_read_environment_def)
  note t = vmxroot_read_touches_offset_size [OF virt chk res refl m a nw dist]
  have raw4: "MemoryMapperReadMemorySafeOnTargetProcess ?E (rm_Address ?R) ?B (rm_Size ?R)
                (ucast (rm_Size ?R)) = 0xcc"
    by (simp add: example_read_environment_def example_read_request_def)
  have "buf' (ucast (rm_Size ?R)) = 0x48"
    using conjunct2 [OF conjunct2 [OF conjunct2 [OF t]]] raw4 by simp
  then have "buf' 4 = 0x48" by (simp add: example_read_request_def)
  then show ?thesis using res by simp
qed

section \<open>Properties of the MSR command\<close>

text \<open>
  C8. A read or write request for one core (its core number is not the all-cores
  constant) whose core number is not below the processor count returns
  \<open>STATUS_INVALID_PARAMETER\<close>; the machine, and with it every per-core slot, is as it
  was, and so is the user buffer.
\<close>

theorem msr_core_out_of_range:
  assumes "msr_ActionType req = DEBUGGER_MSR_READ \<or> msr_ActionType req = DEBUGGER_MSR_WRITE"
      and "msr_CoreNumber req \<noteq> DEBUGGER_READ_AND_WRITE_ON_MSR_APPLY_ALL_CORES env"
      and "msr_CoreNumber req \<ge> KeQueryActiveProcessorCount env"
  shows "fst (DebuggerReadOrWriteMsr env req ub rs m) = STATUS_INVALID_PARAMETER
    \<and> snd (snd (snd (DebuggerReadOrWriteMsr env req ub rs m))) = m
    \<and> g_DbgState (snd (snd (snd (DebuggerReadOrWriteMsr env req ub rs m)))) = g_DbgState m
    \<and> fst (snd (DebuggerReadOrWriteMsr env req ub rs m)) = ub"
  using assms by (auto simp: DebuggerReadOrWriteMsr_def Let_def)

theorem msr_core_out_of_range_witness:
  "fst (DebuggerReadOrWriteMsr example_msr_environment
          \<lparr>msr_Msr = 0xc0000082, msr_CoreNumber = 4, msr_ActionType = DEBUGGER_MSR_WRITE,
           msr_Value = 0x1234\<rparr> (\<lambda>i. 0) 0 example_msr_machine) = STATUS_INVALID_PARAMETER
   \<and> snd (snd (snd (DebuggerReadOrWriteMsr example_msr_environment
          \<lparr>msr_Msr = 0xc0000082, msr_CoreNumber = 4, msr_ActionType = DEBUGGER_MSR_WRITE,
           msr_Value = 0x1234\<rparr> (\<lambda>i. 0) 0 example_msr_machine))) = example_msr_machine
   \<and> fst (DebuggerReadOrWriteMsr example_msr_environment
          \<lparr>msr_Msr = 0xc0000082, msr_CoreNumber = 7, msr_ActionType = DEBUGGER_MSR_READ,
           msr_Value = 0\<rparr> (\<lambda>i. 0) 0 example_msr_machine) = STATUS_INVALID_PARAMETER
   \<and> snd (snd (snd (DebuggerReadOrWriteMsr example_msr_environment
          \<lparr>msr_Msr = 0xc0000082, msr_CoreNumber = 7, msr_ActionType = DEBUGGER_MSR_READ,
           msr_Value = 0\<rparr> (\<lambda>i. 0) 0 example_msr_machine))) = example_msr_machine"
  using msr_core_out_of_range [of
          "\<lparr>msr_Msr = 0xc0000082, msr_CoreNumber = 4, msr_ActionType = DEBUGGER_MSR_WRITE,
            msr_Value = 0x1234\<rparr>" example_msr_environment "\<lambda>i. 0" 0 example_msr_machine]
        msr_core_out_of_range [of
          "\<lparr>msr_Msr = 0xc0000082, msr_CoreNumber = 7, msr_ActionType = DEBUGGER_MSR_READ,
            msr_Value = 0\<rparr>" example_msr_environment "\<lambda>i. 0" 0 example_msr_machine]
  by (simp add: example_msr_environment_def)

section \<open>Properties of the vmx-root edit command\<close>

lemma length_fold_cons:
  "length (fold (\<lambda>i mem. f i # mem) xs ys) = length xs + length ys"
  by (induction xs arbitrary: ys) simp_all

text \<open>
  What does hold of the check: it comes before every write, and a virtual edit whose
  check fails returns \<open>FALSE\<close> with \<open>DEBUGGER_ERROR_INVALID_ADDRESS\<close> and leaves the
  memory as it was, whatever the writers would have done.
\<close>

lemma edit_vmxroot_failed_check_writes_nothing:
  assumes "em_ByteSize r = EDIT_BYTE env \<or> em_ByteSize r = EDIT_DWORD env
           \<or> em_ByteSize r = EDIT_QWORD env"
      and "em_MemoryType r = EDIT_VIRTUAL_MEMORY"
      and "\<not> CheckAccessValidityAndSafety env (em_Address r)
               (em_ByteSize r * em_CountOf64Chunks r)"
  shows "DebuggerCommandEditMemoryVmxRoot env r mem =
           (False, r\<lparr>em_Result := DEBUGGER_ERROR_INVALID_ADDRESS\<rparr>, mem)"
  using assms by (auto simp: DebuggerCommandEditMemoryVmxRoot_def)

text \<open>
  C7. The range handed to the access check is \<open>ByteSize * CountOf64Chunks\<close>, the selector
  stored in the request times the count as a 32-bit product, not the chunk width times
  the count. With the selectors numbered \<open>0, 1, 2\<close>, an edit of two quadwords at
  \<open>0x1000\<close> passes a check that accepts no more than the four bytes from \<open>0x1000\<close>, and
  then writes eight bytes at \<open>0x1000\<close> and eight at \<open>0x1008\<close>. With the selectors
  numbered \<open>1, 4, 8\<close>, an edit of \<open>0x20000000\<close> quadwords passes a check that accepts
  empty ranges only, and makes all its \<open>0x20000000\<close> writes.
\<close>

theorem edit_vmxroot_check_is_short:
  "DebuggerCommandEditMemoryVmxRoot example_edit_environment
     \<lparr>em_Result = DEBUGGER_STATUS_NOT_SET, em_Address = 0x1000, em_ProcessId = 4,
      em_MemoryType = EDIT_VIRTUAL_MEMORY, em_ByteSize = 2, em_CountOf64Chunks = 2,
      em_Payload = (\<lambda>i. if i = 0 then 0x1111111111111111 else 0x2222222222222222)\<rparr> []
   = (True,
      \<lparr>em_Result = DEBUGGER_OPERATION_WAS_SUCCESSFUL, em_Address = 0x1000, em_ProcessId = 4,
       em_MemoryType = EDIT_VIRTUAL_MEMORY, em_ByteSize = 2, em_CountOf64Chunks = 2,
       em_Payload = (\<lambda>i. if i = 0 then 0x1111111111111111 else 0x2222222222222222)\<rparr>,
      [(0x1008, 0x2222222222222222, 8), (0x1000, 0x1111111111111111, 8)])
   \<and> \<not> CheckAccessValidityAndSafety example_edit_environment 0x1000 16
   \<and> fst (DebuggerCommandEditMemoryVmxRoot example_edit_environment_widths
        \<lparr>em_Result = DEBUGGER_STATUS_NOT_SET, em_Address = 0x1000, em_ProcessId = 4,
         em_MemoryType = EDIT_VIRTUAL_MEMORY, em_ByteSize = 8, em_CountOf64Chunks = 0x20000000,
         em_Payload = (\<lambda>i. 0)\<rparr> [])
   \<and> length (snd (snd (DebuggerCommandEditMemoryVmxRoot example_edit_environment_widths
        \<lparr>em_Result = DEBUGGER_STATUS_NOT_SET, em_Address = 0x1000, em_ProcessId = 4,
         em_MemoryType = EDIT_VIRTUAL_MEMORY, em_ByteSize = 8, em_CountOf64Chunks = 0x20000000,
         em_Payload = (\<lambda>i. 0)\<rparr> []))) = 0x20000000"
proof -
  have up2: "[0 ..< 2] = [0, Suc 0]" by (simp add: upt_rec)
  have a: "DebuggerCommandEditMemoryVmxRoot example_edit_environment
     \<lparr>em_Result = DEBUGGER_STATUS_NOT_SET, em_Address = 0x1000, em_ProcessId = 4,
      em_MemoryType = EDIT_VIRTUAL_MEMORY, em_ByteSize = 2, em_CountOf64Chunks = 2,
      em_Payload = (\<lambda>i. if i = 0 then 0x1111111111111111 else 0x2222222222222222)\<rparr> []
   = (True,
      \<lparr>em_Result = DEBUGGER_OPERATION_WAS_SUCCESSFUL, em_Address = 0x1000, em_ProcessId = 4,
       em_MemoryType = EDIT_VIRTUAL_MEMORY, em_ByteSize = 2, em_CountOf64Chunks = 2,
       em_Payload = (\<lambda>i. if i = 0 then 0x1111111111111111 else 0x2222222222222222)\<rparr>,
      [(0x1008, 0x2222222222222222, 8), (0x1000, 0x1111111111111111, 8)])"
    by (simp add: DebuggerCommandEditMemoryVmxRoot_def example_edit_environment_def up2)
  have b: "\<not> CheckAccessValidityAndSafety example_edit_environment 0x1000 16"
    by (simp add: example_edit_environment_def)
  have w: "(8 :: UINT32) * 0x20000000 = 0" by simp
  have c: "DebuggerCommandEditMemoryVmxRoot example_edit_environment_widths
        \<lparr>em_Result = DEBUGGER_STATUS_NOT_SET, em_Address = 0x1000, em_ProcessId = 4,
         em_MemoryType = EDIT_VIRTUAL_MEMORY, em_ByteSize = 8, em_CountOf64Chunks = 0x20000000,
         em_Payload = (\<lambda>i. 0)\<rparr> []
     = (True,
        \<lparr>em_Result = DEBUGGER_OPERATION_WAS_SUCCESSFUL, em_Address = 0x1000, em_ProcessId = 4,
         em_MemoryType = EDIT_VIRTUAL_MEMORY, em_ByteSize = 8, em_CountOf64Chunks = 0x20000000,
         em_Payload = (\<lambda>i. 0)\<rparr>,
        fold (\<lambda>i mem. (0x1000 + of_nat i * 8, 0, 8) # mem) [0 ..< 0x20000000] [])"
    by (simp add: DebuggerCommandEditMemoryVmxRoot_def example_edit_environment_widths_def w
          del: upt_conv_Cons)
  show ?thesis
    unfolding a c using b by (simp add: length_fold_cons del: upt_conv_Cons)
qed

section \<open>Properties of the search\<close>

subsection \<open>Auxiliary facts\<close>

lemma Loop_unfold:
  "PerformSearchAddress_Loop env r L p E B st =
     (if B < E then
        (if fst (PerformSearchAddress_Body env r L p B st)
         then Some (True, snd (PerformSearchAddress_Body env r L p B st))
         else PerformSearchAddress_Loop env r L p E (B + ucast L)
                (snd (PerformSearchAddress_Body env r L p B st)))
      else Some (False, st))"
  by (subst PerformSearchAddress_Loop.simps) (simp split: prod.splits)

lemma Loop_end: "\<not> B < E \<Longrightarrow> PerformSearchAddress_Loop env r L p E B st = Some (False, st)"
  by (subst Loop_unfold) simp

lemma Body_not_reported:
  "\<not> position_reported env r L B \<Longrightarrow> PerformSearchAddress_Body env r L p B st = (False, st)"
  by (auto simp: PerformSearchAddress_Body_def position_reported_def)

lemma Body_reported_room:
  "position_reported env r L B \<Longrightarrow> IndexToArrayOfResults st < MaximumSearchResults env \<Longrightarrow>
   PerformSearchAddress_Body env r L False B st =
     (False, st\<lparr>CountOfOccurance := CountOfOccurance st + 1,
               AddressToSaveResults := (AddressToSaveResults st)
                  (unat (IndexToArrayOfResults st) := FoundAddress env r B),
               Stores := unat (IndexToArrayOfResults st) # Stores st,
               IndexToArrayOfResults := IndexToArrayOfResults st + 1\<rparr>)"
  by (simp add: PerformSearchAddress_Body_def position_reported_def FoundAddress_def Let_def)

lemma Body_reported_full:
  "position_reported env r L B \<Longrightarrow> \<not> IndexToArrayOfResults st < MaximumSearchResults env \<Longrightarrow>
   PerformSearchAddress_Body env r L False B st =
     (True, st\<lparr>CountOfOccurance := CountOfOccurance st + 1,
               AddressToSaveResults := (AddressToSaveResults st)
                  (unat (IndexToArrayOfResults st) := FoundAddress env r B),
               Stores := unat (IndexToArrayOfResults st) # Stores st\<rparr>)"
  by (simp add: PerformSearchAddress_Body_def position_reported_def FoundAddress_def Let_def)

lemma unat_ucast_UINT32: "unat (ucast (L :: UINT32) :: UINT64) = unat L"
  by (simp add: unsigned_ucast_eq take_bit_nat_eq_self unsigned_less [of L, THEN less_trans])

lemma unat_step:
  "unat B + unat L \<le> unat E \<Longrightarrow> unat (B + ucast L) = unat B + unat L"
  for B E :: UINT64 and L :: UINT32
proof -
  assume a: "unat B + unat L \<le> unat E"
  have "unat E < 2 ^ 64" using unsigned_less [of E] by simp
  then have "unat B + unat (ucast L :: UINT64) < 2 ^ LENGTH(64)"
    using a by (simp add: unat_ucast_UINT32)
  then show ?thesis by (simp add: unat_add_lem [THEN iffD1] unat_ucast_UINT32)
qed

lemma step_shift: "B + ucast L + of_nat k * ucast L = B + of_nat (Suc k) * ucast L"
  for B :: UINT64 and L :: UINT32
  by (simp add: algebra_simps)

lemma Loop_skip:
  assumes "unat B + n * unat L \<le> unat E" and "0 < unat L"
      and "\<forall>k<n. \<not> position_reported env r L (B + of_nat k * ucast L)"
  shows "PerformSearchAddress_Loop env r L p E B st =
         PerformSearchAddress_Loop env r L p E (B + of_nat n * ucast L) st"
  using assms
proof (induction n arbitrary: B)
  case 0
  then show ?case by simp
next
  case (Suc n)
  have lt: "B < E" using Suc.prems(1,2) by (simp add: word_less_nat_alt)
  have here: "\<not> position_reported env r L B" using Suc.prems(3) [rule_format, of 0] by simp
  have u: "unat (B + ucast L) = unat B + unat L"
    using Suc.prems(1) by (intro unat_step [of B L E]) simp
  have rest: "\<forall>k<n. \<not> position_reported env r L (B + ucast L + of_nat k * ucast L)"
  proof (intro allI impI)
    fix k assume "k < n"
    then have "Suc k < Suc n" by simp
    then have "\<not> position_reported env r L (B + of_nat (Suc k) * ucast L)"
      by (rule Suc.prems(3) [rule_format])
    then show "\<not> position_reported env r L (B + ucast L + of_nat k * ucast L)"
      unfolding step_shift .
  qed
  have bound: "unat (B + ucast L) + n * unat L \<le> unat E"
    using Suc.prems(1) u by simp
  have "PerformSearchAddress_Loop env r L p E B st =
        PerformSearchAddress_Loop env r L p E (B + ucast L) st"
    by (subst Loop_unfold) (simp add: lt Body_not_reported [OF here])
  also have "\<dots> = PerformSearchAddress_Loop env r L p E (B + ucast L + of_nat n * ucast L) st"
    by (rule Suc.IH [OF bound Suc.prems(2) rest])
  finally show ?case by (simp only: step_shift)
qed

lemma unat_plus_one: "x < y \<Longrightarrow> unat (x + 1) = unat x + 1" for x y :: UINT32
proof -
  assume "x < y"
  then have "unat x < unat y" by (simp add: word_less_nat_alt)
  moreover have "unat y < 2 ^ 32" using unsigned_less [of y] by simp
  ultimately have "unat x + unat (1 :: UINT32) < 2 ^ LENGTH(32)" by simp
  then show ?thesis by (simp add: unat_add_lem [THEN iffD1])
qed

lemma after_matches_0: "after_matches env r L B 0 st = st"
proof -
  have "(\<lambda>i. if unat (IndexToArrayOfResults st) \<le> i \<and> i < unat (IndexToArrayOfResults st) + 0
             then FoundAddress env r
                    (B + of_nat (i - unat (IndexToArrayOfResults st)) * ucast L)
             else AddressToSaveResults st i) = AddressToSaveResults st"
    by (rule ext) auto
  then show ?thesis by (simp add: after_matches_def)
qed

lemma after_matches_Suc:
  assumes "IndexToArrayOfResults st < MaximumSearchResults env"
  shows "after_matches env r L (B + ucast L) n
      (st\<lparr>CountOfOccurance := CountOfOccurance st + 1,
               AddressToSaveResults := (AddressToSaveResults st)
                  (unat (IndexToArrayOfResults st) := FoundAddress env r B),
               Stores := unat (IndexToArrayOfResults st) # Stores st,
               IndexToArrayOfResults := IndexToArrayOfResults st + 1\<rparr>)
    = after_matches env r L B (Suc n) st"
proof -
  let ?idx = "unat (IndexToArrayOfResults st)"
  have i1: "unat (IndexToArrayOfResults st + 1) = ?idx + 1"
    using assms by (rule unat_plus_one)
  have arr: "(\<lambda>i. if ?idx + 1 \<le> i \<and> i < ?idx + 1 + n
               then FoundAddress env r (B + ucast L + of_nat (i - (?idx + 1)) * ucast L)
               else ((AddressToSaveResults st)(?idx := FoundAddress env r B)) i)
           = (\<lambda>i. if ?idx \<le> i \<and> i < ?idx + Suc n
               then FoundAddress env r (B + of_nat (i - ?idx) * ucast L)
               else AddressToSaveResults st i)"
  proof
    fix i
    consider "i < ?idx" | "i = ?idx" | "?idx < i"  by linarith
    then show "(if ?idx + 1 \<le> i \<and> i < ?idx + 1 + n
               then FoundAddress env r (B + ucast L + of_nat (i - (?idx + 1)) * ucast L)
               else ((AddressToSaveResults st)(?idx := FoundAddress env r B)) i)
           = (if ?idx \<le> i \<and> i < ?idx + Suc n
               then FoundAddress env r (B + of_nat (i - ?idx) * ucast L)
               else AddressToSaveResults st i)"
    proof cases
      case 1 then show ?thesis by simp
    next
      case 2 then show ?thesis by simp
    next
      case 3
      then have "i - ?idx = Suc (i - (?idx + 1))" by simp
      then have e: "B + of_nat (i - ?idx) * ucast L = B + ucast L + of_nat (i - (?idx + 1)) * ucast L"
        by (simp only: step_shift)
      have c: "(?idx + 1 \<le> i \<and> i < ?idx + 1 + n) = (?idx \<le> i \<and> i < ?idx + Suc n)"
        using 3 by auto
      have ne: "i \<noteq> ?idx" using 3 by simp
      show ?thesis unfolding c e by (simp only: fun_upd_other [OF ne])
    qed
  qed
  have st: "rev [?idx + 1 ..< ?idx + 1 + n] @ ?idx # Stores st
          = rev [?idx ..< ?idx + Suc n] @ Stores st"
    by (simp add: upt_conv_Cons del: upt_Suc)
  let ?st1 = "st\<lparr>CountOfOccurance := CountOfOccurance st + 1,
               AddressToSaveResults := (AddressToSaveResults st)
                  (unat (IndexToArrayOfResults st) := FoundAddress env r B),
               Stores := unat (IndexToArrayOfResults st) # Stores st,
               IndexToArrayOfResults := IndexToArrayOfResults st + 1\<rparr>"
  have sel: "CountOfOccurance ?st1 = CountOfOccurance st + 1"
      "IndexToArrayOfResults ?st1 = IndexToArrayOfResults st + 1"
      "AddressToSaveResults ?st1 = (AddressToSaveResults st)(?idx := FoundAddress env r B)"
      "LogOutput ?st1 = LogOutput st"
      "Stores ?st1 = ?idx # Stores st"
    by simp_all
  show ?thesis
    unfolding after_matches_def sel i1 arr st by simp
qed

lemma Loop_matches:
  assumes "unat B + n * unat L \<le> unat E" and "0 < unat L"
      and "\<forall>k<n. position_reported env r L (B + of_nat k * ucast L)"
      and "unat (IndexToArrayOfResults st) + n \<le> unat (MaximumSearchResults env)"
  shows "PerformSearchAddress_Loop env r L False E B st =
         PerformSearchAddress_Loop env r L False E (B + of_nat n * ucast L)
           (after_matches env r L B n st)"
  using assms
proof (induction n arbitrary: B st)
  case 0
  then show ?case by (simp add: after_matches_0)
next
  case (Suc n)
  let ?st1 = "st\<lparr>CountOfOccurance := CountOfOccurance st + 1,
               AddressToSaveResults := (AddressToSaveResults st)
                  (unat (IndexToArrayOfResults st) := FoundAddress env r B),
               Stores := unat (IndexToArrayOfResults st) # Stores st,
               IndexToArrayOfResults := IndexToArrayOfResults st + 1\<rparr>"
  have lt: "B < E" using Suc.prems(1,2) by (simp add: word_less_nat_alt)
  have here: "position_reported env r L B" using Suc.prems(3) [rule_format, of 0] by simp
  have room: "IndexToArrayOfResults st < MaximumSearchResults env"
    using Suc.prems(4) by (simp add: word_less_nat_alt)
  have u: "unat (B + ucast L) = unat B + unat L"
    using Suc.prems(1) by (intro unat_step [of B L E]) simp
  have rest: "\<forall>k<n. position_reported env r L (B + ucast L + of_nat k * ucast L)"
  proof (intro allI impI)
    fix k assume "k < n"
    then have "Suc k < Suc n" by simp
    then have "position_reported env r L (B + of_nat (Suc k) * ucast L)"
      by (rule Suc.prems(3) [rule_format])
    then show "position_reported env r L (B + ucast L + of_nat k * ucast L)"
      unfolding step_shift .
  qed
  have bound: "unat (B + ucast L) + n * unat L \<le> unat E"
    using Suc.prems(1) u by simp
  have idx: "unat (IndexToArrayOfResults ?st1) + n \<le> unat (MaximumSearchResults env)"
    using Suc.prems(4) unat_plus_one [OF room] by simp
  have "PerformSearchAddress_Loop env r L False E B st =
        PerformSearchAddress_Loop env r L False E (B + ucast L) ?st1"
    by (subst Loop_unfold) (simp add: lt Body_reported_room [OF here room])
  also have "\<dots> = PerformSearchAddress_Loop env r L False E (B + ucast L + of_nat n * ucast L)
                     (after_matches env r L (B + ucast L) n ?st1)"
    by (rule Suc.IH [OF bound Suc.prems(2) rest idx])
  finally show ?case unfolding step_shift after_matches_Suc [OF room] .
qed

lemma Loop_full:
  assumes "B < E" and "position_reported env r L B"
      and "\<not> IndexToArrayOfResults st < MaximumSearchResults env"
  shows "PerformSearchAddress_Loop env r L False E B st =
     Some (True, st\<lparr>CountOfOccurance := CountOfOccurance st + 1,
               AddressToSaveResults := (AddressToSaveResults st)
                  (unat (IndexToArrayOfResults st) := FoundAddress env r B),
               Stores := unat (IndexToArrayOfResults st) # Stores st\<rparr>)"
  by (subst Loop_unfold) (simp add: assms(1) Body_reported_full [OF assms(2,3)])

lemma zero_chunk:
  "\<forall>j<n. mem (a + of_nat j) = 0 \<Longrightarrow> CopyToCmp64 mem a n = 0"
proof (induction n arbitrary: a)
  case 0
  then show ?case by simp
next
  case (Suc n)
  have h: "mem a = 0" using Suc.prems [rule_format, of 0] by simp
  have "\<forall>j<n. mem (a + 1 + of_nat j) = 0"
  proof (intro allI impI)
    fix j assume "j < n"
    then have "Suc j < Suc n" by simp
    then have "mem (a + of_nat (Suc j)) = 0" by (rule Suc.prems [rule_format])
    then show "mem (a + 1 + of_nat j) = 0" by (simp add: add.assoc)
  qed
  then have "CopyToCmp64 mem (a + 1) n = 0" by (rule Suc.IH)
  then show ?case using h by simp
qed

lemma unat_offset:
  "unat B + m < 2 ^ 64 \<Longrightarrow> unat (B + of_nat m) = unat B + m" for B :: UINT64
proof -
  assume a: "unat B + m < 2 ^ 64"
  then have m: "unat (of_nat m :: UINT64) = m" by (simp add: unat_of_nat)
  then have "unat B + unat (of_nat m :: UINT64) < 2 ^ LENGTH(64)" using a by simp
  then show ?thesis using m by (simp add: unat_add_lem [THEN iffD1])
qed

lemma StillMatch_past_count:
  "unat (sm_CountOf64Chunks r) \<le> i \<Longrightarrow> PerformSearchAddress_StillMatch env r L B i"
  by (subst PerformSearchAddress_StillMatch.simps) simp

lemma after_matches_sel:
  "CountOfOccurance (after_matches env r L B n st) = CountOfOccurance st + of_nat n"
  "IndexToArrayOfResults (after_matches env r L B n st) = IndexToArrayOfResults st + of_nat n"
  "LogOutput (after_matches env r L B n st) = LogOutput st"
  by (simp_all add: after_matches_def)

lemma chunk4: "CopyToCmp64 mem a 4 =
   ucast (mem a) OR push_bit 8 (ucast (mem (a + 1)) OR push_bit 8 (ucast (mem (a + 2)) OR
   push_bit 8 (ucast (mem (a + 3)))))"
  by (simp add: eval_nat_numeral add.assoc)

lemma chunk8: "CopyToCmp64 mem a 8 =
   ucast (mem a) OR push_bit 8 (ucast (mem (a + 1)) OR push_bit 8 (ucast (mem (a + 2)) OR
   push_bit 8 (ucast (mem (a + 3)) OR push_bit 8 (ucast (mem (a + 4)) OR
   push_bit 8 (ucast (mem (a + 5)) OR push_bit 8 (ucast (mem (a + 6)) OR
   push_bit 8 (ucast (mem (a + 7)))))))))"
  by (simp add: eval_nat_numeral add.assoc)

lemma three_page_chunk_zero:
  assumes "unat p + 8 \<le> 0x2000 \<or> 0x2000 < unat p" and "unat p + 8 < 2 ^ 64"
  shows "CopyToCmp64 three_page_memory p 8 = 0"
proof (rule zero_chunk, intro allI impI)
  fix j :: nat assume j: "j < 8"
  then have "unat (p + of_nat j) = unat p + j"
    using assms(2) by (intro unat_offset) simp
  then have "unat (p + of_nat j) \<noteq> unat (0x2000 :: UINT64)"
    using assms(1) j by auto
  then have "p + of_nat j \<noteq> 0x2000" by metis
  then show "three_page_memory (p + of_nat j) = 0"
    by (simp add: three_page_memory_def)
qed

lemma three_page_position:
  "k < 512 \<Longrightarrow> unat ((0x2008 :: UINT64) + of_nat k * ucast (8 :: UINT32)) = 0x2008 + k * 8"
proof -
  assume k: "k < 512"
  have "(0x2008 :: UINT64) + of_nat k * ucast (8 :: UINT32) = 0x2008 + of_nat (k * 8)"
    by simp
  moreover have "unat ((0x2008 :: UINT64) + of_nat (k * 8)) = unat (0x2008 :: UINT64) + k * 8"
    using k by (intro unat_offset) simp
  ultimately show ?thesis by simp
qed

lemma three_page_loop:
  "PerformSearchAddress_Loop (example_search_environment three_page_memory three_page_translation)
     three_page_request 8 False 0x3008 0x1FF8
     \<lparr>CountOfOccurance = 0, IndexToArrayOfResults = 0,
      AddressToSaveResults = (\<lambda>i. 0), LogOutput = [], Stores = []\<rparr>
   = Some (False, \<lparr>CountOfOccurance = 1, IndexToArrayOfResults = 1,
      AddressToSaveResults = (\<lambda>i. 0)(0 := 0x2000), LogOutput = [], Stores = [0]\<rparr>)"
proof -
  let ?E = "example_search_environment three_page_memory three_page_translation"
  let ?R = three_page_request
  let ?st0 = "\<lparr>CountOfOccurance = 0, IndexToArrayOfResults = 0,
      AddressToSaveResults = (\<lambda>i. 0), LogOutput = [], Stores = []\<rparr>"
  let ?st1 = "\<lparr>CountOfOccurance = 1, IndexToArrayOfResults = 1,
      AddressToSaveResults = (\<lambda>i. 0)(0 := 0x2000), LogOutput = [], Stores = [0]\<rparr>"
  have mem: "TargetMemory ?E = three_page_memory" and M: "MaximumSearchResults ?E = 0x1000"
    by (simp_all add: example_search_environment_def)
  have pat: "sm_Payload ?R 0 = 0x41" and cnt: "sm_CountOf64Chunks ?R = 1"
    and ty: "sm_MemoryType ?R = SEARCH_VIRTUAL_MEMORY"
    by (simp_all add: three_page_request_def)
  have no_rep: "\<not> position_reported ?E ?R 8 p"
    if "unat p + 8 \<le> 0x2000 \<or> 0x2000 < unat p" and "unat p + 8 < 2 ^ 64" for p
    using three_page_chunk_zero [OF that] by (simp add: position_reported_def mem pat)
  have first: "\<forall>k<1. \<not> position_reported ?E ?R 8 (0x1FF8 + of_nat k * ucast (8 :: UINT32))"
    by (intro allI impI no_rep) simp_all
  have last: "\<forall>k<512. \<not> position_reported ?E ?R 8 (0x2008 + of_nat k * ucast (8 :: UINT32))"
  proof (intro allI impI no_rep)
    fix k :: nat assume k: "k < 512"
    show "unat ((0x2008 :: UINT64) + of_nat k * ucast (8 :: UINT32)) + 8 \<le> 0x2000
          \<or> 0x2000 < unat ((0x2008 :: UINT64) + of_nat k * ucast (8 :: UINT32))"
      unfolding three_page_position [OF k] by simp
    show "unat ((0x2008 :: UINT64) + of_nat k * ucast (8 :: UINT32)) + 8 < 2 ^ 64"
      unfolding three_page_position [OF k] using k by simp
  qed
  have rep: "position_reported ?E ?R 8 0x2000"
    unfolding position_reported_def mem pat
    by (simp add: chunk8 three_page_memory_def StillMatch_past_count cnt)
  have s1: "PerformSearchAddress_Loop ?E ?R 8 False 0x3008 0x1FF8 ?st0 =
            PerformSearchAddress_Loop ?E ?R 8 False 0x3008
              (0x1FF8 + of_nat 1 * ucast (8 :: UINT32)) ?st0"
    by (rule Loop_skip [OF _ _ first]) simp_all
  have p1: "(0x1FF8 :: UINT64) + of_nat 1 * ucast (8 :: UINT32) = 0x2000" by simp
  have body: "PerformSearchAddress_Body ?E ?R 8 False 0x2000 ?st0 = (False, ?st1)"
    by (subst Body_reported_room [OF rep]) (simp_all add: M FoundAddress_def ty)
  have s2: "PerformSearchAddress_Loop ?E ?R 8 False 0x3008 0x2000 ?st0 =
            PerformSearchAddress_Loop ?E ?R 8 False 0x3008 0x2008 ?st1"
    by (subst Loop_unfold) (simp add: body)
  have s3: "PerformSearchAddress_Loop ?E ?R 8 False 0x3008 0x2008 ?st1 =
            PerformSearchAddress_Loop ?E ?R 8 False 0x3008
              (0x2008 + of_nat 512 * ucast (8 :: UINT32)) ?st1"
    by (rule Loop_skip [OF _ _ last]) simp_all
  have p3: "(0x2008 :: UINT64) + of_nat 512 * ucast (8 :: UINT32) = 0x3008" by simp
  have s4: "PerformSearchAddress_Loop ?E ?R 8 False 0x3008 0x3008 ?st1 = Some (False, ?st1)"
    by (rule Loop_end) simp
  show ?thesis unfolding s1 p1 s2 s3 p3 s4 ..
qed

lemma three_page_walk:
  "SearchAddressWrapper_Walk (example_search_environment three_page_memory three_page_translation)
     0x3008 0x1FF8 0x1000 0 False = Some (0x2000, 0x1FF8, True)"
  by (subst SearchAddressWrapper_Walk.simps,
      simp add: example_search_environment_def three_page_translation_def,
      subst SearchAddressWrapper_Walk.simps,
      simp add: example_search_environment_def three_page_translation_def)

lemma three_page_wrapper:
  "SearchAddressWrapper (example_search_environment three_page_memory three_page_translation)
     (\<lambda>i. 0) three_page_request 0x1FF8 0x3008 False
   = Some (True, three_page_request, (\<lambda>i. 0)(0 := 0x2000), 1, [], [0])"
proof -
  let ?E = "example_search_environment three_page_memory three_page_translation"
  have al: "PAGE_ALIGN ?E 0x1FF8 = 0x1000"
    by (simp add: PAGE_ALIGN_def example_search_environment_def)
  have ty: "sm_MemoryType three_page_request = SEARCH_VIRTUAL_MEMORY"
    and bs: "sm_ByteSize three_page_request = SEARCH_QWORD"
    by (simp_all add: three_page_request_def)
  have p: "PerformSearchAddress ?E (\<lambda>i. 0) three_page_request 0x1FF8 0x3008 False 0
     = Some (True, (\<lambda>i. 0)(0 := 0x2000), 1, [], [0])"
    by (simp add: PerformSearchAddress_def ty bs three_page_loop)
  show ?thesis
    by (simp add: SearchAddressWrapper_def ty al three_page_walk p)
qed



lemma zero_byte_search:
  "PerformSearchAddress (example_search_environment (\<lambda>a. 0) (\<lambda>a. a)) (\<lambda>i. 0)
     zero_byte_request 0x10000 0x12000 False 0
   = Some (True,
       (AddressToSaveResults
          (after_matches (example_search_environment (\<lambda>a. 0) (\<lambda>a. a)) zero_byte_request 1
             0x10000 0x1000
             \<lparr>CountOfOccurance = 0, IndexToArrayOfResults = 0,
              AddressToSaveResults = (\<lambda>i. 0), LogOutput = [], Stores = []\<rparr>))
         (0x1000 := 0x11000),
       0x1001, [],
       0x1000 # Stores
          (after_matches (example_search_environment (\<lambda>a. 0) (\<lambda>a. a)) zero_byte_request 1
             0x10000 0x1000
             \<lparr>CountOfOccurance = 0, IndexToArrayOfResults = 0,
              AddressToSaveResults = (\<lambda>i. 0), LogOutput = [], Stores = []\<rparr>))"
proof -
  let ?E = "example_search_environment (\<lambda>a. 0) (\<lambda>a. a)"
  let ?R = zero_byte_request
  let ?st0 = "\<lparr>CountOfOccurance = 0, IndexToArrayOfResults = 0,
               AddressToSaveResults = (\<lambda>i. 0), LogOutput = [], Stores = []\<rparr>"
  let ?am = "after_matches ?E ?R 1 0x10000 0x1000 ?st0"
  have M: "MaximumSearchResults ?E = 0x1000"
    by (simp add: example_search_environment_def)
  have ty: "sm_MemoryType ?R = SEARCH_VIRTUAL_MEMORY"
    by (simp add: zero_byte_request_def)
  have rep: "position_reported ?E ?R 1 B" for B
    by (simp add: position_reported_def example_search_environment_def zero_byte_request_def
          StillMatch_past_count)
  have run: "PerformSearchAddress_Loop ?E ?R 1 False 0x12000 0x10000 ?st0 =
             PerformSearchAddress_Loop ?E ?R 1 False 0x12000
               (0x10000 + of_nat 0x1000 * ucast (1 :: UINT32)) ?am"
    by (rule Loop_matches) (simp_all add: rep M)
  have pos: "(0x10000 :: UINT64) + of_nat 0x1000 * ucast (1 :: UINT32) = 0x11000" by simp
  have full: "PerformSearchAddress_Loop ?E ?R 1 False 0x12000 0x11000 ?am =
     Some (True, ?am\<lparr>CountOfOccurance := CountOfOccurance ?am + 1,
               AddressToSaveResults := (AddressToSaveResults ?am)
                  (unat (IndexToArrayOfResults ?am) := FoundAddress ?E ?R 0x11000),
               Stores := unat (IndexToArrayOfResults ?am) # Stores ?am\<rparr>)"
    by (rule Loop_full) (simp_all add: rep M after_matches_sel)
  have "PerformSearchAddress ?E (\<lambda>i. 0) ?R 0x10000 0x12000 False 0 =
     map_option (\<lambda>(full, st). (True, AddressToSaveResults st, CountOfOccurance st, LogOutput st,
                           Stores st))
       (PerformSearchAddress_Loop ?E ?R 1 False 0x12000 0x10000 ?st0)"
    by (simp add: PerformSearchAddress_def zero_byte_request_def)
  then show ?thesis
    unfolding run pos full by (simp add: M after_matches_sel FoundAddress_def ty)
qed















subsection \<open>Verifying the remaining pattern chunks\<close>

text \<open>
  C2. The inner loop starts at index \<open>LengthOfEachChunk\<close>, not at index 1, so for
  doublewords the pattern slots 1 to 3 are never compared. A search for the two
  doublewords \<open>0xAABBCCDD\<close>, \<open>0x11111111\<close> over memory that holds \<open>0xAABBCCDD\<close> at
  \<open>0x1000\<close> followed by zeros returns \<open>TRUE\<close> with one match, at \<open>0x1000\<close>, although
  the chunk at offset \<open>1 * 4\<close> differs from the second slot.
\<close>

theorem search_skips_pattern_chunks:
  "CopyToCmp64 dword_pattern_memory (0x1000 + 4 * 1) 4 \<noteq> sm_Payload dword_pattern_request 1
   \<and> map_option (\<lambda>(ok, arr, cnt, log, stored). (ok, arr 0, cnt))
        (PerformSearchAddress (example_search_environment dword_pattern_memory (\<lambda>a. a)) (\<lambda>i. 0)
           dword_pattern_request 0x1000 0x1004 False 0)
      = Some (True, 0x1000, 1)"
proof -
  let ?E = "example_search_environment dword_pattern_memory (\<lambda>a. a)"
  let ?R = dword_pattern_request
  let ?st0 = "\<lparr>CountOfOccurance = 0, IndexToArrayOfResults = 0,
               AddressToSaveResults = (\<lambda>i. 0), LogOutput = [], Stores = []\<rparr>"
  have second: "CopyToCmp64 dword_pattern_memory (0x1000 + 4 * 1) 4 \<noteq> sm_Payload ?R 1"
    by (simp add: chunk4 dword_pattern_memory_def dword_pattern_request_def)
  have first: "CopyToCmp64 dword_pattern_memory 0x1000 4 = 0xAABBCCDD"
    by (simp add: chunk4 dword_pattern_memory_def)
  have still: "PerformSearchAddress_StillMatch ?E ?R 4 0x1000 (unat (4 :: UINT32))"
    by (rule StillMatch_past_count) (simp add: dword_pattern_request_def)
  have rep: "position_reported ?E ?R 4 0x1000"
    unfolding position_reported_def using still
    by (simp add: example_search_environment_def first dword_pattern_request_def)
  have body: "PerformSearchAddress_Body ?E ?R 4 False 0x1000 ?st0 =
     (False, \<lparr>CountOfOccurance = 1, IndexToArrayOfResults = 1,
               AddressToSaveResults = (\<lambda>i. 0)(0 := 0x1000), LogOutput = [], Stores = [0]\<rparr>)"
    by (subst Body_reported_room [OF rep])
       (simp_all add: example_search_environment_def FoundAddress_def dword_pattern_request_def)
  have loop: "PerformSearchAddress_Loop ?E ?R 4 False 0x1004 0x1000 ?st0 =
     Some (False, \<lparr>CountOfOccurance = 1, IndexToArrayOfResults = 1,
               AddressToSaveResults = (\<lambda>i. 0)(0 := 0x1000), LogOutput = [], Stores = [0]\<rparr>)"
    by (subst Loop_unfold, simp add: body, subst Loop_unfold, simp)
  have "PerformSearchAddress ?E (\<lambda>i. 0) ?R 0x1000 0x1004 False 0 =
     map_option (\<lambda>(full, st). (True, AddressToSaveResults st, CountOfOccurance st, LogOutput st,
                           Stores st))
       (PerformSearchAddress_Loop ?E ?R 4 False 0x1004 0x1000 ?st0)"
    by (simp add: PerformSearchAddress_def dword_pattern_request_def)
  then show ?thesis
    unfolding loop using second by simp
qed

subsection \<open>The count reported when the result buffer is full\<close>

text \<open>
  C3. With room for \<open>0x1000\<close> results, a search for the byte \<open>0\<close> over \<open>0x2000\<close> zero
  bytes returns \<open>TRUE\<close> and reports \<open>0x1001\<close> matched cases, one more than the
  capacity.
\<close>

theorem search_reports_one_more_than_capacity:
  "MaximumSearchResults (example_search_environment (\<lambda>a. 0) (\<lambda>a. a)) = 0x1000
   \<and> map_option (\<lambda>(ok, arr, cnt, log, stored). (ok, cnt))
        (PerformSearchAddress (example_search_environment (\<lambda>a. 0) (\<lambda>a. a)) (\<lambda>i. 0)
           zero_byte_request 0x10000 0x12000 False 0)
      = Some (True, 0x1001)"
  unfolding zero_byte_search by (simp add: example_search_environment_def)

subsection \<open>The store that precedes the capacity check\<close>




subsection \<open>A range with an unmapped page in the middle\<close>

text \<open>
  C1. The wrapper accepts a range as soon as its first page is mapped, and then
  searches up to the end address that was asked for. For the range from \<open>0x1FF8\<close> to
  \<open>0x3008\<close>, whose middle page at \<open>0x2000\<close> is not mapped, \<open>SearchAddressWrapper\<close>
  returns \<open>TRUE\<close> with one match, at \<open>0x2000\<close> inside the unmapped page, and
  \<open>DebuggerCommandSearchMemory\<close> returns \<open>STATUS_SUCCESS\<close> with that address as its
  one result.
\<close>

theorem search_scans_past_unmapped_page:
  "VirtualAddressToPhysicalAddress
      (example_search_environment three_page_memory three_page_translation) 0x1000 \<noteq> 0
   \<and> VirtualAddressToPhysicalAddress
      (example_search_environment three_page_memory three_page_translation) 0x2000 = 0
   \<and> VirtualAddressToPhysicalAddress
      (example_search_environment three_page_memory three_page_translation) 0x3000 \<noteq> 0
   \<and> SearchAddressWrapper (example_search_environment three_page_memory three_page_translation)
        (\<lambda>i. 0) three_page_request 0x1FF8 0x3008 False
      = Some (True, three_page_request, (\<lambda>i. 0)(0 := 0x2000), 1, [], [0])
   \<and> map_option (\<lambda>(status, ub). (status, ub 0, ub 1))
        (DebuggerCommandSearchMemory
           (example_search_environment three_page_memory three_page_translation)
           three_page_request (\<lambda>i. 0x4141414141414141))
      = Some (STATUS_SUCCESS, 0x2000, 0)"
proof -
  let ?E = "example_search_environment three_page_memory three_page_translation"
  have tr: "VirtualAddressToPhysicalAddress ?E 0x1000 \<noteq> 0"
      "VirtualAddressToPhysicalAddress ?E 0x2000 = 0"
      "VirtualAddressToPhysicalAddress ?E 0x3000 \<noteq> 0"
    by (simp_all add: example_search_environment_def three_page_translation_def)
  have M: "MaximumSearchResults ?E = 0x1000"
    by (simp add: example_search_environment_def)
  have mv: "DebuggerCommandSearchMemory_Move ?E ((\<lambda>i. 0)(0 := 0x2000)) 0x1FF8 0x3008 0 0 ub
            = ub(0 := 0x2000)" for ub
    by (subst DebuggerCommandSearchMemory_Move.simps, simp add: M,
        subst DebuggerCommandSearchMemory_Move.simps, simp add: M)
  have top: "DebuggerCommandSearchMemory ?E three_page_request (\<lambda>i. 0x4141414141414141)
     = Some (STATUS_SUCCESS,
             (\<lambda>i. if i < unat (MaximumSearchResults ?E) then 0 else 0x4141414141414141)
               (0 := 0x2000))"
  proof -
    have f: "sm_ProcessId three_page_request = PsGetCurrentProcessId ?E"
        "PlatformMemAllocateZeroedNonPagedPool_succeeds ?E"
        "sm_Address three_page_request = 0x1FF8"
        "sm_Length three_page_request = 0x1010"
      by (simp_all add: three_page_request_def example_search_environment_def)
    show ?thesis
      by (simp add: DebuggerCommandSearchMemory_def Let_def f three_page_wrapper mv)
  qed
  show ?thesis
    using tr three_page_wrapper by (simp add: top M)
qed

end
